theory Spec2Isabelle
  imports Main
begin

section \<open>Python values and the operations the source applies to them\<close>

text \<open>
  The upstream client hands back parsed JSON, and both modules build their answers from
  Python dicts, lists, strings and integers. A dict is an association list in insertion
  order whose first binding of a key is the one a lookup sees. Floating-point numbers do
  not occur in what the source builds and are not part of the model.
\<close>

datatype json =
    JNull
  | JBool bool
  | JInt int
  | JStr string
  | JList "json list"
  | JObj "(string \<times> json) list"

text \<open>
  An exception is its class and the text that \<^verbatim>\<open>str(e)\<close> gives. Only the class
  \<open>HttpError\<close> is told apart by the source (\<^verbatim>\<open>except HttpError\<close>); every class is an
  \<^verbatim>\<open>Exception\<close> for the handlers of \<^verbatim>\<open>main.py\<close>.
\<close>

datatype exn_class = HttpError | KeyError | TypeError | AttributeError | IndexError | OtherException

datatype exn = Exn exn_class string

fun exn_class_of :: "exn \<Rightarrow> exn_class" where
  "exn_class_of (Exn c m) = c"

fun str_exn :: "exn \<Rightarrow> string" where
  "str_exn (Exn c m) = m"

definition bind_exn :: "exn + 'a \<Rightarrow> ('a \<Rightarrow> exn + 'b) \<Rightarrow> exn + 'b" where
  "bind_exn m f = (case m of Inl e \<Rightarrow> Inl e | Inr x \<Rightarrow> f x)"

fun py_type_name :: "json \<Rightarrow> string" where
  "py_type_name JNull = ''NoneType''"
| "py_type_name (JBool b) = ''bool''"
| "py_type_name (JInt i) = ''int''"
| "py_type_name (JStr s) = ''str''"
| "py_type_name (JList xs) = ''list''"
| "py_type_name (JObj kvs) = ''dict''"

text \<open>\<^verbatim>\<open>repr\<close> of a key that has no quote, backslash or control character, as every key of the source.\<close>

definition py_repr_key :: "string \<Rightarrow> string" where
  "py_repr_key k = [CHR 0x27] @ k @ [CHR 0x27]"

text \<open>The messages of the builtin exceptions, as CPython 3.12 words them.\<close>

definition not_subscriptable :: "json \<Rightarrow> exn" where
  "not_subscriptable v =
     Exn TypeError (py_repr_key (py_type_name v) @ '' object is not subscriptable'')"

definition no_attribute_get :: "json \<Rightarrow> exn" where
  "no_attribute_get v =
     Exn AttributeError
       (py_repr_key (py_type_name v) @ '' object has no attribute '' @ py_repr_key ''get'')"

definition not_iterable :: "json \<Rightarrow> exn" where
  "not_iterable v = Exn TypeError (py_repr_key (py_type_name v) @ '' object is not iterable'')"

text \<open>\<^verbatim>\<open>obj[key]\<close> for a string key.\<close>

fun py_getitem :: "json \<Rightarrow> string \<Rightarrow> exn + json" where
  "py_getitem (JObj kvs) k =
     (case map_of kvs k of
        None \<Rightarrow> Inl (Exn KeyError (py_repr_key k))
      | Some v \<Rightarrow> Inr v)"
| "py_getitem (JStr s) k = Inl (Exn TypeError (''string indices must be integers, not '' @ py_repr_key ''str''))"
| "py_getitem (JList xs) k = Inl (Exn TypeError ''list indices must be integers or slices, not str'')"
| "py_getitem v k = Inl (not_subscriptable v)"

text \<open>\<^verbatim>\<open>obj[0]\<close>.\<close>

fun py_getitem0 :: "json \<Rightarrow> exn + json" where
  "py_getitem0 (JList []) = Inl (Exn IndexError ''list index out of range'')"
| "py_getitem0 (JList (x # xs)) = Inr x"
| "py_getitem0 (JStr []) = Inl (Exn IndexError ''string index out of range'')"
| "py_getitem0 (JStr (c # cs)) = Inr (JStr [c])"
| "py_getitem0 (JObj kvs) = Inl (Exn KeyError ''0'')"
| "py_getitem0 v = Inl (not_subscriptable v)"

text \<open>\<^verbatim>\<open>obj.get(key, default)\<close>: only a dict has the method.\<close>

fun py_get :: "json \<Rightarrow> string \<Rightarrow> json \<Rightarrow> exn + json" where
  "py_get (JObj kvs) k d = (case map_of kvs k of None \<Rightarrow> Inr d | Some v \<Rightarrow> Inr v)"
| "py_get v k d = Inl (no_attribute_get v)"

text \<open>Truth value of an object, as \<^verbatim>\<open>if x:\<close> tests it.\<close>

fun truthy :: "json \<Rightarrow> bool" where
  "truthy JNull = False"
| "truthy (JBool b) = b"
| "truthy (JInt i) = (i \<noteq> 0)"
| "truthy (JStr s) = (s \<noteq> [])"
| "truthy (JList xs) = (xs \<noteq> [])"
| "truthy (JObj kvs) = (kvs \<noteq> [])"

fun dict_keys :: "(string \<times> json) list \<Rightarrow> string list" where
  "dict_keys [] = []"
| "dict_keys ((k, v) # kvs) = k # filter (\<lambda>k'. k' \<noteq> k) (dict_keys kvs)"

text \<open>
  What a \<^verbatim>\<open>for\<close> loop runs over: the elements of a list, the characters of a string,
  the keys of a dict; the other values are not iterable.
\<close>

fun py_iter :: "json \<Rightarrow> exn + json list" where
  "py_iter (JList xs) = Inr xs"
| "py_iter (JStr s) = Inr (map (\<lambda>c. JStr [c]) s)"
| "py_iter (JObj kvs) = Inr (map JStr (dict_keys kvs))"
| "py_iter v = Inl (not_iterable v)"

section \<open>The upstream client and the observable effects\<close>

text \<open>
  One upstream query is the resource it is sent to (\<^verbatim>\<open>search\<close> or \<^verbatim>\<open>videos\<close>) and the
  keyword arguments of \<^verbatim>\<open>list(...)\<close>, in the order the source writes them.
\<close>

datatype api_call = ApiCall string "(string \<times> json) list"

text \<open>
  The environment of a request. \<open>upstream\<close> stands for
  \<^verbatim>\<open>self.youtube.<resource>().list(**kwargs).execute()\<close>: the parsed response, or the
  exception raised. \<open>py_int\<close> stands for the builtin \<^verbatim>\<open>int\<close> on a string, with \<open>None\<close>
  for its \<^verbatim>\<open>ValueError\<close>. Both belong to libraries outside the repository.
\<close>

record env =
  upstream :: "api_call \<Rightarrow> exn + json"
  py_int :: "string \<Rightarrow> int option"

text \<open>The effects of a request: the upstream queries issued and the lines printed.\<close>

record world =
  calls :: "api_call list"
  stdout :: "string list"

definition execute :: "env \<Rightarrow> api_call \<Rightarrow> world \<Rightarrow> (exn + json) \<times> world" where
  "execute env c w = (upstream env c, w\<lparr>calls := calls w @ [c]\<rparr>)"

text \<open>
  \<^verbatim>\<open>except HttpError as e: print(f"An HTTP error occurred: {e}"); raise\<close>:
  the exception goes on to the caller, and any other class passes untouched.
\<close>

definition except_HttpError :: "exn + 'a \<Rightarrow> world \<Rightarrow> (exn + 'a) \<times> world" where
  "except_HttpError r w =
     (case r of
        Inl e \<Rightarrow>
          (if exn_class_of e = HttpError
           then (Inl e, w\<lparr>stdout := stdout w @ [''An HTTP error occurred: '' @ str_exn e]\<rparr>)
           else (Inl e, w))
      | Inr x \<Rightarrow> (Inr x, w))"

section \<open>youtube_api.py\<close>

text \<open>\<^verbatim>\<open>item["snippet"].get(key, default)\<close>.\<close>

definition snippet_get :: "json \<Rightarrow> string \<Rightarrow> json \<Rightarrow> exn + json" where
  "snippet_get item k d = bind_exn (py_getitem item ''snippet'') (\<lambda>snippet. py_get snippet k d)"

text \<open>\<^verbatim>\<open>item["statistics"].get(key, 0)\<close>.\<close>

definition statistics_get :: "json \<Rightarrow> string \<Rightarrow> exn + json" where
  "statistics_get item k =
     bind_exn (py_getitem item ''statistics'') (\<lambda>statistics. py_get statistics k (JInt 0))"

text \<open>\<^verbatim>\<open>item["snippet"]["thumbnails"][variant]["url"]\<close>.\<close>

definition thumbnail_url :: "json \<Rightarrow> string \<Rightarrow> exn + json" where
  "thumbnail_url item variant =
     bind_exn (py_getitem item ''snippet'') (\<lambda>snippet.
     bind_exn (py_getitem snippet ''thumbnails'') (\<lambda>thumbnails.
     bind_exn (py_getitem thumbnails variant) (\<lambda>t.
     py_getitem t ''url'')))"

text \<open>What \<^verbatim>\<open>for item in response.get("items", [])\<close> runs over.\<close>

definition response_items :: "json \<Rightarrow> exn + json list" where
  "response_items response = bind_exn (py_get response ''items'' (JList [])) py_iter"

subsection \<open>search_shorts\<close>

definition search_request :: "string \<Rightarrow> int \<Rightarrow> api_call" where
  "search_request query max_results =
     ApiCall ''search''
       [(''q'', JStr query),
        (''part'', JStr ''snippet''),
        (''maxResults'', JInt max_results),
        (''videoDuration'', JStr ''short''),
        (''videoType'', JStr ''video''),
        (''order'', JStr ''relevance''),
        (''type'', JStr ''video'')]"

text \<open>\<^verbatim>\<open>item["id"].get("videoId")\<close>.\<close>

definition item_video_id :: "json \<Rightarrow> exn + json" where
  "item_video_id item = bind_exn (py_getitem item ''id'') (\<lambda>i. py_get i ''videoId'' JNull)"

text \<open>The dict literal \<^verbatim>\<open>short_data\<close>; its values are evaluated top to bottom.\<close>

definition short_data :: "json \<Rightarrow> json \<Rightarrow> exn + json" where
  "short_data video_id item =
     bind_exn (snippet_get item ''title'' JNull) (\<lambda>title.
     bind_exn (snippet_get item ''description'' JNull) (\<lambda>description.
     bind_exn (thumbnail_url item ''default'') (\<lambda>thumbnail.
     bind_exn (snippet_get item ''channelTitle'' JNull) (\<lambda>channel_title.
     bind_exn (snippet_get item ''publishedAt'' JNull) (\<lambda>published_at.
     Inr (JObj
       [(''video_id'', video_id),
        (''title'', title),
        (''description'', description),
        (''thumbnail'', thumbnail),
        (''channel_title'', channel_title),
        (''published_at'', published_at)]))))))"

text \<open>The loop over the items; \<open>shorts\<close> is the list built so far.\<close>

fun search_loop :: "json list \<Rightarrow> json list \<Rightarrow> exn + json list" where
  "search_loop [] shorts = Inr shorts"
| "search_loop (item # rest) shorts =
     (case item_video_id item of
        Inl e \<Rightarrow> Inl e
      | Inr video_id \<Rightarrow>
          if truthy video_id
          then (case short_data video_id item of
                  Inl e \<Rightarrow> Inl e
                | Inr d \<Rightarrow> search_loop rest (shorts @ [d]))
          else search_loop rest shorts)"

definition YouTubeAPI_search_shorts ::
    "env \<Rightarrow> string \<Rightarrow> int \<Rightarrow> world \<Rightarrow> (exn + json) \<times> world" where
  "YouTubeAPI_search_shorts env query max_results w =
     (case execute env (search_request query max_results) w of
        (r, w') \<Rightarrow>
          except_HttpError
            (bind_exn r (\<lambda>response.
             bind_exn (response_items response) (\<lambda>items.
             bind_exn (search_loop items []) (\<lambda>shorts.
             Inr (JList shorts)))))
            w')"

subsection \<open>get_video_details\<close>

definition details_request :: "string \<Rightarrow> api_call" where
  "details_request video_id =
     ApiCall ''videos''
       [(''part'', JStr ''snippet,statistics,contentDetails''),
        (''id'', JStr video_id)]"

text \<open>
  The body of the \<^verbatim>\<open>if response.get("items")\<close> branch, from the first item on:
  \<open>duration\<close> is read first, then the dict literal top to bottom.
\<close>

definition video_details :: "string \<Rightarrow> json \<Rightarrow> exn + json" where
  "video_details video_id item =
     bind_exn (bind_exn (py_getitem item ''contentDetails'')
                 (\<lambda>cd. py_get cd ''duration'' (JStr ''''))) (\<lambda>duration.
     bind_exn (snippet_get item ''title'' JNull) (\<lambda>title.
     bind_exn (snippet_get item ''description'' JNull) (\<lambda>description.
     bind_exn (snippet_get item ''channelId'' JNull) (\<lambda>channel_id.
     bind_exn (snippet_get item ''channelTitle'' JNull) (\<lambda>channel_title.
     bind_exn (snippet_get item ''publishedAt'' JNull) (\<lambda>published_at.
     bind_exn (thumbnail_url item ''high'') (\<lambda>thumbnail.
     bind_exn (statistics_get item ''viewCount'') (\<lambda>view_count.
     bind_exn (statistics_get item ''likeCount'') (\<lambda>like_count.
     bind_exn (statistics_get item ''commentCount'') (\<lambda>comment_count.
     bind_exn (snippet_get item ''tags'' (JList [])) (\<lambda>tags.
     bind_exn (snippet_get item ''categoryId'' JNull) (\<lambda>category_id.
     Inr (JObj
       [(''video_id'', JStr video_id),
        (''title'', title),
        (''description'', description),
        (''channel_id'', channel_id),
        (''channel_title'', channel_title),
        (''published_at'', published_at),
        (''thumbnail'', thumbnail),
        (''duration'', duration),
        (''view_count'', view_count),
        (''like_count'', like_count),
        (''comment_count'', comment_count),
        (''tags'', tags),
        (''category_id'', category_id)])))))))))))))"

text \<open>The result is the dict of details, or \<open>JNull\<close> for Python's \<^verbatim>\<open>None\<close>.\<close>

definition YouTubeAPI_get_video_details ::
    "env \<Rightarrow> string \<Rightarrow> world \<Rightarrow> (exn + json) \<times> world" where
  "YouTubeAPI_get_video_details env video_id w =
     (case execute env (details_request video_id) w of
        (r, w') \<Rightarrow>
          except_HttpError
            (bind_exn r (\<lambda>response.
             bind_exn (py_get response ''items'' JNull) (\<lambda>items_value.
             if truthy items_value
             then bind_exn (py_getitem response ''items'') (\<lambda>items.
                  bind_exn (py_getitem0 items) (\<lambda>item.
                  video_details video_id item))
             else Inr JNull)))
            w')"

subsection \<open>get_trending_shorts\<close>

definition trending_request :: "string \<Rightarrow> int \<Rightarrow> api_call" where
  "trending_request region_code max_results =
     ApiCall ''videos''
       [(''part'', JStr ''snippet,statistics''),
        (''maxResults'', JInt max_results),
        (''regionCode'', JStr region_code),
        (''videoDuration'', JStr ''short''),
        (''order'', JStr ''viewCount''),
        (''chart'', JStr ''mostPopular'')]"

definition trending_data :: "json \<Rightarrow> exn + json" where
  "trending_data item =
     bind_exn (py_getitem item ''id'') (\<lambda>video_id.
     bind_exn (snippet_get item ''title'' JNull) (\<lambda>title.
     bind_exn (snippet_get item ''description'' JNull) (\<lambda>description.
     bind_exn (thumbnail_url item ''default'') (\<lambda>thumbnail.
     bind_exn (snippet_get item ''channelTitle'' JNull) (\<lambda>channel_title.
     bind_exn (snippet_get item ''publishedAt'' JNull) (\<lambda>published_at.
     bind_exn (statistics_get item ''viewCount'') (\<lambda>view_count.
     Inr (JObj
       [(''video_id'', video_id),
        (''title'', title),
        (''description'', description),
        (''thumbnail'', thumbnail),
        (''channel_title'', channel_title),
        (''published_at'', published_at),
        (''view_count'', view_count)]))))))))"

fun trending_loop :: "json list \<Rightarrow> json list \<Rightarrow> exn + json list" where
  "trending_loop [] trending = Inr trending"
| "trending_loop (item # rest) trending =
     (case trending_data item of
        Inl e \<Rightarrow> Inl e
      | Inr d \<Rightarrow> trending_loop rest (trending @ [d]))"

definition YouTubeAPI_get_trending_shorts ::
    "env \<Rightarrow> string \<Rightarrow> int \<Rightarrow> world \<Rightarrow> (exn + json) \<times> world" where
  "YouTubeAPI_get_trending_shorts env region_code max_results w =
     (case execute env (trending_request region_code max_results) w of
        (r, w') \<Rightarrow>
          except_HttpError
            (bind_exn r (\<lambda>response.
             bind_exn (response_items response) (\<lambda>items.
             bind_exn (trending_loop items []) (\<lambda>trending.
             Inr (JList trending)))))
            w')"

section \<open>main.py\<close>

text \<open>
  A response is what the view function returns: the JSON body and the status code
  (200 where the source gives none). The query string is the map from a parameter to
  its first value.
\<close>

record http_response =
  status :: nat
  body :: json

type_synonym args = "string \<rightharpoonup> string"

text \<open>\<^verbatim>\<open>request.args.get(key, default=d, type=int)\<close>: a failed conversion gives the default.\<close>

definition args_get_int :: "env \<Rightarrow> args \<Rightarrow> string \<Rightarrow> int \<Rightarrow> int" where
  "args_get_int env args k d =
     (case args k of
        None \<Rightarrow> d
      | Some rv \<Rightarrow> (case py_int env rv of None \<Rightarrow> d | Some n \<Rightarrow> n))"

definition error_envelope :: "string \<Rightarrow> json" where
  "error_envelope message = JObj [(''error'', JStr message)]"

definition success_envelope :: "json \<Rightarrow> json" where
  "success_envelope payload = JObj [(''success'', JBool True), (''data'', payload)]"

definition home :: "http_response" where
  "home = \<lparr>status = 200,
           body = JObj [(''status'', JStr ''ok''),
                        (''message'', JStr ''Shortfinder API is running'')]\<rparr>"

definition search_shorts :: "env \<Rightarrow> args \<Rightarrow> world \<Rightarrow> http_response \<times> world" where
  "search_shorts env args w =
     (let query = args ''q'';
          max_results = args_get_int env args ''max_results'' 10
      in case query of
           None \<Rightarrow>
             (\<lparr>status = 400, body = error_envelope ''Query parameter 'q' is required''\<rparr>, w)
         | Some q \<Rightarrow>
             if q = []
             then (\<lparr>status = 400, body = error_envelope ''Query parameter 'q' is required''\<rparr>, w)
             else (case YouTubeAPI_search_shorts env q max_results w of
                     (Inr results, w') \<Rightarrow> (\<lparr>status = 200, body = success_envelope results\<rparr>, w')
                   | (Inl e, w') \<Rightarrow> (\<lparr>status = 500, body = error_envelope (str_exn e)\<rparr>, w')))"

definition get_short_details :: "env \<Rightarrow> string \<Rightarrow> world \<Rightarrow> http_response \<times> world" where
  "get_short_details env video_id w =
     (case YouTubeAPI_get_video_details env video_id w of
        (Inr details, w') \<Rightarrow>
          if truthy details
          then (\<lparr>status = 200, body = success_envelope details\<rparr>, w')
          else (\<lparr>status = 404, body = error_envelope ''Video not found''\<rparr>, w')
      | (Inl e, w') \<Rightarrow> (\<lparr>status = 500, body = error_envelope (str_exn e)\<rparr>, w'))"

definition get_trending_shorts :: "env \<Rightarrow> args \<Rightarrow> world \<Rightarrow> http_response \<times> world" where
  "get_trending_shorts env args w =
     (let region_code = (case args ''region'' of None \<Rightarrow> ''US'' | Some r \<Rightarrow> r);
          max_results = args_get_int env args ''max_results'' 10
      in case YouTubeAPI_get_trending_shorts env region_code max_results w of
           (Inr results, w') \<Rightarrow> (\<lparr>status = 200, body = success_envelope results\<rparr>, w')
         | (Inl e, w') \<Rightarrow> (\<lparr>status = 500, body = error_envelope (str_exn e)\<rparr>, w'))"

section \<open>Notions for stating the properties\<close>

text \<open>
  An item has a resolvable video identifier when \<^verbatim>\<open>item["id"].get("videoId")\<close> is
  evaluated without an exception and its value passes the test \<^verbatim>\<open>if video_id:\<close>.
\<close>

definition has_video_id :: "json \<Rightarrow> bool" where
  "has_video_id item = (case item_video_id item of Inl e \<Rightarrow> False | Inr video_id \<Rightarrow> truthy video_id)"

text \<open>A facet is present when the item has the key and its value is an object.\<close>

definition has_facet :: "json \<Rightarrow> string \<Rightarrow> bool" where
  "has_facet item k = (case py_getitem item k of Inr (JObj kvs) \<Rightarrow> True | _ \<Rightarrow> False)"

text \<open>The item has \<^verbatim>\<open>snippet.thumbnails.<variant>.url\<close>.\<close>

definition has_thumbnail :: "json \<Rightarrow> string \<Rightarrow> bool" where
  "has_thumbnail item variant = (case thumbnail_url item variant of Inl e \<Rightarrow> False | Inr url \<Rightarrow> True)"

text \<open>The value of a field of an object, or the default when the object has no such field.\<close>

definition field_or :: "(string \<times> json) list \<Rightarrow> string \<Rightarrow> json \<Rightarrow> json" where
  "field_or kvs k d = (case map_of kvs k of None \<Rightarrow> d | Some v \<Rightarrow> v)"

text \<open>\<open>d\<close> is the summary that the search loop appends for \<open>item\<close>.\<close>

definition summary_of :: "json \<Rightarrow> json \<Rightarrow> bool" where
  "summary_of item d = (\<exists>video_id. item_video_id item = Inr video_id \<and> short_data video_id item = Inr d)"

section \<open>Upstream doubles and sample data\<close>

text \<open>
  A substitutable upstream client that answers every query with the same outcome, a
  sample integer conversion (unsigned decimal digits), the initial effects, and items
  in the shapes the upstream search and video listings use.
\<close>

definition decimal :: "string \<Rightarrow> int option" where
  "decimal s =
     (if s \<noteq> [] \<and> list_all (\<lambda>c. c \<in> set ''0123456789'') s
      then Some (foldl (\<lambda>n c. 10 * n + (int (of_char c) - 48)) 0 s)
      else None)"

definition stub_env :: "exn + json \<Rightarrow> env" where
  "stub_env r = \<lparr>upstream = (\<lambda>c. r), py_int = decimal\<rparr>"

definition w0 :: world where
  "w0 = \<lparr>calls = [], stdout = []\<rparr>"

definition thumbnails_of :: "string \<Rightarrow> json" where
  "thumbnails_of vid =
     JObj [(''default'', JObj [(''url'', JStr (''https://i.ytimg.com/vi/'' @ vid @ ''/default.jpg''))]),
           (''high'', JObj [(''url'', JStr (''https://i.ytimg.com/vi/'' @ vid @ ''/hqdefault.jpg''))])]"

definition search_item :: "string \<Rightarrow> json" where
  "search_item vid =
     JObj [(''id'', JObj [(''kind'', JStr ''youtube#video''), (''videoId'', JStr vid)]),
           (''snippet'', JObj [(''title'', JStr (''Short '' @ vid)), (''thumbnails'', thumbnails_of vid)])]"

definition channel_item :: json where
  "channel_item =
     JObj [(''id'', JObj [(''kind'', JStr ''youtube#channel''), (''channelId'', JStr ''UC1'')]),
           (''snippet'', JObj [(''title'', JStr ''A channel'')])]"

text \<open>The summary that the search loop builds for \<open>search_item vid\<close>.\<close>

definition search_summary :: "string \<Rightarrow> json" where
  "search_summary vid =
     JObj [(''video_id'', JStr vid),
           (''title'', JStr (''Short '' @ vid)),
           (''description'', JNull),
           (''thumbnail'', JStr (''https://i.ytimg.com/vi/'' @ vid @ ''/default.jpg'')),
           (''channel_title'', JNull),
           (''published_at'', JNull)]"

definition video_item :: "string \<Rightarrow> (string \<times> json) list \<Rightarrow> json" where
  "video_item vid statistics =
     JObj [(''id'', JStr vid),
           (''snippet'', JObj [(''title'', JStr (''Short '' @ vid)), (''thumbnails'', thumbnails_of vid)]),
           (''statistics'', JObj statistics),
           (''contentDetails'', JObj [(''duration'', JStr ''PT30S'')])]"

text \<open>The records that the normalizers build for \<open>video_item vid statistics\<close>.\<close>

definition video_detail :: "string \<Rightarrow> string \<Rightarrow> json \<Rightarrow> json \<Rightarrow> json \<Rightarrow> json" where
  "video_detail video_id vid views likes comments =
     JObj [(''video_id'', JStr video_id),
           (''title'', JStr (''Short '' @ vid)),
           (''description'', JNull),
           (''channel_id'', JNull),
           (''channel_title'', JNull),
           (''published_at'', JNull),
           (''thumbnail'', JStr (''https://i.ytimg.com/vi/'' @ vid @ ''/hqdefault.jpg'')),
           (''duration'', JStr ''PT30S''),
           (''view_count'', views),
           (''like_count'', likes),
           (''comment_count'', comments),
           (''tags'', JList []),
           (''category_id'', JNull)]"

definition trending_entry :: "string \<Rightarrow> json \<Rightarrow> json" where
  "trending_entry vid views =
     JObj [(''video_id'', JStr vid),
           (''title'', JStr (''Short '' @ vid)),
           (''description'', JNull),
           (''thumbnail'', JStr (''https://i.ytimg.com/vi/'' @ vid @ ''/default.jpg'')),
           (''channel_title'', JNull),
           (''published_at'', JNull),
           (''view_count'', views)]"

definition items_response :: "json list \<Rightarrow> json" where
  "items_response items = JObj [(''kind'', JStr ''youtube#listResponse''), (''items'', JList items)]"

text \<open>An upstream client that answers the search resource and the videos resource differently.\<close>

definition resource_env :: "exn + json \<Rightarrow> exn + json \<Rightarrow> env" where
  "resource_env search_result videos_result =
     \<lparr>upstream = (\<lambda>c. case c of ApiCall resource kwargs \<Rightarrow>
                            if resource = ''search'' then search_result else videos_result),
      py_int = decimal\<rparr>"

section \<open>Basic facts about the operations\<close>

lemma bind_exn_Inl [simp]: "bind_exn (Inl e) f = Inl e"
  by (simp add: bind_exn_def)

lemma bind_exn_Inr [simp]: "bind_exn (Inr x) f = f x"
  by (simp add: bind_exn_def)

lemma bind_exn_eq_Inr: "bind_exn m f = Inr y \<longleftrightarrow> (\<exists>x. m = Inr x \<and> f x = Inr y)"
  by (cases m) simp_all

lemma py_get_obj: "py_get (JObj kvs) k d = Inr (field_or kvs k d)"
  by (simp add: field_or_def split: option.splits)

lemma py_getitem_Inr_obj: "py_getitem v k = Inr x \<Longrightarrow> \<exists>kvs. v = JObj kvs \<and> map_of kvs k = Some x"
  by (cases v) (auto simp: not_subscriptable_def split: option.splits)

lemma py_get_Inr_obj: "py_get v k d = Inr x \<Longrightarrow> \<exists>kvs. v = JObj kvs \<and> x = field_or kvs k d"
  by (cases v) (auto simp: no_attribute_get_def field_or_def split: option.splits)

lemma has_facet_iff: "has_facet item k \<longleftrightarrow> (\<exists>kvs. py_getitem item k = Inr (JObj kvs))"
  by (auto simp: has_facet_def split: sum.splits json.splits)

lemma has_thumbnail_iff: "has_thumbnail item variant \<longleftrightarrow> (\<exists>url. thumbnail_url item variant = Inr url)"
  by (auto simp: has_thumbnail_def split: sum.splits)

lemma thumbnail_url_snippet:
  "thumbnail_url item variant = Inr url \<Longrightarrow> \<exists>sn. py_getitem item ''snippet'' = Inr (JObj sn)"
  by (auto simp: thumbnail_url_def bind_exn_eq_Inr dest!: py_getitem_Inr_obj)

lemma snippet_get_obj:
  "py_getitem item ''snippet'' = Inr (JObj sn) \<Longrightarrow> snippet_get item k d = Inr (field_or sn k d)"
  by (simp add: snippet_get_def py_get_obj del: py_get.simps)

lemma statistics_get_obj:
  "py_getitem item ''statistics'' = Inr (JObj st) \<Longrightarrow> statistics_get item k = Inr (field_or st k (JInt 0))"
  by (simp add: statistics_get_def py_get_obj del: py_get.simps)

lemma statistics_get_Inr:
  "statistics_get item k = Inr v \<Longrightarrow>
     \<exists>st. py_getitem item ''statistics'' = Inr (JObj st) \<and> v = field_or st k (JInt 0)"
  by (auto simp: statistics_get_def bind_exn_eq_Inr dest!: py_get_Inr_obj)

lemma short_data_closed:
  assumes "py_getitem item ''snippet'' = Inr (JObj sn)"
      and "thumbnail_url item ''default'' = Inr url"
  shows "short_data video_id item =
           Inr (JObj
             [(''video_id'', video_id),
              (''title'', field_or sn ''title'' JNull),
              (''description'', field_or sn ''description'' JNull),
              (''thumbnail'', url),
              (''channel_title'', field_or sn ''channelTitle'' JNull),
              (''published_at'', field_or sn ''publishedAt'' JNull)])"
  using assms by (simp add: short_data_def snippet_get_obj)

lemma video_details_closed:
  assumes "py_getitem item ''contentDetails'' = Inr (JObj cd)"
      and "py_getitem item ''snippet'' = Inr (JObj sn)"
      and "thumbnail_url item ''high'' = Inr url"
      and "py_getitem item ''statistics'' = Inr (JObj st)"
  shows "video_details video_id item =
           Inr (JObj
             [(''video_id'', JStr video_id),
              (''title'', field_or sn ''title'' JNull),
              (''description'', field_or sn ''description'' JNull),
              (''channel_id'', field_or sn ''channelId'' JNull),
              (''channel_title'', field_or sn ''channelTitle'' JNull),
              (''published_at'', field_or sn ''publishedAt'' JNull),
              (''thumbnail'', url),
              (''duration'', field_or cd ''duration'' (JStr [])),
              (''view_count'', field_or st ''viewCount'' (JInt 0)),
              (''like_count'', field_or st ''likeCount'' (JInt 0)),
              (''comment_count'', field_or st ''commentCount'' (JInt 0)),
              (''tags'', field_or sn ''tags'' (JList [])),
              (''category_id'', field_or sn ''categoryId'' JNull)])"
  using assms by (simp add: video_details_def snippet_get_obj statistics_get_obj py_get_obj del: py_get.simps)

lemma trending_data_closed:
  assumes "py_getitem item ''id'' = Inr video_id"
      and "py_getitem item ''snippet'' = Inr (JObj sn)"
      and "thumbnail_url item ''default'' = Inr url"
      and "py_getitem item ''statistics'' = Inr (JObj st)"
  shows "trending_data item =
           Inr (JObj
             [(''video_id'', video_id),
              (''title'', field_or sn ''title'' JNull),
              (''description'', field_or sn ''description'' JNull),
              (''thumbnail'', url),
              (''channel_title'', field_or sn ''channelTitle'' JNull),
              (''published_at'', field_or sn ''publishedAt'' JNull),
              (''view_count'', field_or st ''viewCount'' (JInt 0))])"
  using assms by (simp add: trending_data_def snippet_get_obj statistics_get_obj)

lemma trending_loop_iff:
  "trending_loop items acc = Inr out \<longleftrightarrow>
     (\<exists>new. out = acc @ new \<and> list_all2 (\<lambda>item d. trending_data item = Inr d) items new)"
proof (induction items arbitrary: acc)
  case Nil
  show ?case by auto
next
  case (Cons item rest)
  show ?case
  proof (cases "trending_data item")
    case (Inl e)
    then show ?thesis by (auto simp: list_all2_Cons1)
  next
    case (Inr d)
    then show ?thesis by (auto simp: Cons.IH list_all2_Cons1)
  qed
qed

lemma search_loop_iff:
  "search_loop items acc = Inr out \<longleftrightarrow>
     (\<forall>item \<in> set items. \<exists>video_id. item_video_id item = Inr video_id) \<and>
     (\<exists>new. out = acc @ new \<and> list_all2 summary_of (filter has_video_id items) new)"
proof (induction items arbitrary: acc)
  case Nil
  show ?case by auto
next
  case (Cons item rest)
  show ?case
  proof (cases "item_video_id item")
    case (Inl e)
    then show ?thesis by auto
  next
    case (Inr video_id)
    show ?thesis
    proof (cases "truthy video_id")
      case False
      with Inr show ?thesis by (simp add: Cons.IH has_video_id_def)
    next
      case True
      show ?thesis
      proof (cases "short_data video_id item")
        case (Inl e)
        with Inr True show ?thesis
          by (auto simp: has_video_id_def summary_of_def list_all2_Cons1)
      next
        case (Inr d)
        with \<open>item_video_id item = Inr video_id\<close> True show ?thesis
          by (auto simp: Cons.IH has_video_id_def summary_of_def list_all2_Cons1)
      qed
    qed
  qed
qed

lemma fst_except_HttpError: "fst (except_HttpError r w) = r"
  by (simp add: except_HttpError_def split: sum.splits)

lemma calls_except_HttpError: "calls (snd (except_HttpError r w)) = calls w"
  by (simp add: except_HttpError_def split: sum.splits)

lemma fst_YouTubeAPI_search_shorts:
  "fst (YouTubeAPI_search_shorts env query max_results w) =
     bind_exn (upstream env (search_request query max_results)) (\<lambda>response.
     bind_exn (response_items response) (\<lambda>items.
     bind_exn (search_loop items []) (\<lambda>shorts. Inr (JList shorts))))"
  by (simp add: YouTubeAPI_search_shorts_def execute_def fst_except_HttpError)

lemma calls_YouTubeAPI_search_shorts:
  "calls (snd (YouTubeAPI_search_shorts env query max_results w)) =
     calls w @ [search_request query max_results]"
  by (simp add: YouTubeAPI_search_shorts_def execute_def calls_except_HttpError)

lemma fst_YouTubeAPI_get_video_details:
  "fst (YouTubeAPI_get_video_details env video_id w) =
     bind_exn (upstream env (details_request video_id)) (\<lambda>response.
     bind_exn (py_get response ''items'' JNull) (\<lambda>items_value.
     if truthy items_value
     then bind_exn (py_getitem response ''items'') (\<lambda>items.
          bind_exn (py_getitem0 items) (\<lambda>item. video_details video_id item))
     else Inr JNull))"
  by (simp add: YouTubeAPI_get_video_details_def execute_def fst_except_HttpError)

lemma calls_YouTubeAPI_get_video_details:
  "calls (snd (YouTubeAPI_get_video_details env video_id w)) = calls w @ [details_request video_id]"
  by (simp add: YouTubeAPI_get_video_details_def execute_def calls_except_HttpError)

lemma fst_YouTubeAPI_get_trending_shorts:
  "fst (YouTubeAPI_get_trending_shorts env region_code max_results w) =
     bind_exn (upstream env (trending_request region_code max_results)) (\<lambda>response.
     bind_exn (response_items response) (\<lambda>items.
     bind_exn (trending_loop items []) (\<lambda>trending. Inr (JList trending))))"
  by (simp add: YouTubeAPI_get_trending_shorts_def execute_def fst_except_HttpError)

lemma calls_YouTubeAPI_get_trending_shorts:
  "calls (snd (YouTubeAPI_get_trending_shorts env region_code max_results w)) =
     calls w @ [trending_request region_code max_results]"
  by (simp add: YouTubeAPI_get_trending_shorts_def execute_def calls_except_HttpError)

lemma fst_search_shorts:
  "args ''q'' = Some q \<Longrightarrow> q \<noteq> [] \<Longrightarrow>
   fst (search_shorts env args w) =
     (case fst (YouTubeAPI_search_shorts env q (args_get_int env args ''max_results'' 10) w) of
        Inl e \<Rightarrow> \<lparr>status = 500, body = error_envelope (str_exn e)\<rparr>
      | Inr results \<Rightarrow> \<lparr>status = 200, body = success_envelope results\<rparr>)"
  by (simp add: search_shorts_def split: prod.splits sum.splits)

lemma snd_search_shorts:
  "args ''q'' = Some q \<Longrightarrow> q \<noteq> [] \<Longrightarrow>
   snd (search_shorts env args w) =
     snd (YouTubeAPI_search_shorts env q (args_get_int env args ''max_results'' 10) w)"
  by (simp add: search_shorts_def split: prod.splits sum.splits)

lemma fst_get_short_details:
  "fst (get_short_details env video_id w) =
     (case fst (YouTubeAPI_get_video_details env video_id w) of
        Inl e \<Rightarrow> \<lparr>status = 500, body = error_envelope (str_exn e)\<rparr>
      | Inr details \<Rightarrow>
          if truthy details then \<lparr>status = 200, body = success_envelope details\<rparr>
          else \<lparr>status = 404, body = error_envelope ''Video not found''\<rparr>)"
  by (simp add: get_short_details_def split: prod.splits sum.splits)

lemma snd_get_short_details:
  "snd (get_short_details env video_id w) = snd (YouTubeAPI_get_video_details env video_id w)"
  by (simp add: get_short_details_def split: prod.splits sum.splits)

lemma fst_get_trending_shorts:
  "fst (get_trending_shorts env args w) =
     (case fst (YouTubeAPI_get_trending_shorts env
                  (case args ''region'' of None \<Rightarrow> ''US'' | Some r \<Rightarrow> r)
                  (args_get_int env args ''max_results'' 10) w) of
        Inl e \<Rightarrow> \<lparr>status = 500, body = error_envelope (str_exn e)\<rparr>
      | Inr results \<Rightarrow> \<lparr>status = 200, body = success_envelope results\<rparr>)"
  by (simp add: get_trending_shorts_def Let_def split: prod.splits sum.splits)

lemma snd_get_trending_shorts:
  "snd (get_trending_shorts env args w) =
     snd (YouTubeAPI_get_trending_shorts env
            (case args ''region'' of None \<Rightarrow> ''US'' | Some r \<Rightarrow> r)
            (args_get_int env args ''max_results'' 10) w)"
  by (simp add: get_trending_shorts_def Let_def split: prod.splits sum.splits)

lemma trending_data_video_id:
  "trending_data item = Inr d \<Longrightarrow> py_getitem d ''video_id'' = py_getitem item ''id''"
  by (auto simp: trending_data_def bind_exn_eq_Inr)

lemma video_details_video_id:
  "video_details video_id item = Inr d \<Longrightarrow> py_getitem d ''video_id'' = Inr (JStr video_id)"
  by (auto simp: video_details_def bind_exn_eq_Inr)

lemmas sample_defs =
  stub_env_def w0_def items_response_def video_item_def search_item_def channel_item_def
  thumbnails_of_def decimal_def

lemmas normalizer_defs =
  response_items_def trending_data_def short_data_def video_details_def item_video_id_def
  snippet_get_def statistics_get_def thumbnail_url_def py_repr_key_def

lemma args_get_int_unparseable:
  "py_int env s = None \<Longrightarrow> args_get_int env (args(k \<mapsto> s)) k d = d"
  by (simp add: args_get_int_def)

lemma args_get_int_absent:
  "args_get_int env (args(k := None)) k d = d"
  by (simp add: args_get_int_def)

lemma short_data_video_id:
  "short_data video_id item = Inr d \<Longrightarrow> py_getitem d ''video_id'' = Inr video_id"
  by (auto simp: short_data_def bind_exn_eq_Inr)

lemma list_all2_exists:
  "(\<forall>x \<in> set xs. \<exists>y. R x y) \<Longrightarrow> \<exists>ys. list_all2 R xs ys"
proof (induction xs)
  case Nil
  show ?case by simp
next
  case (Cons x xs)
  then obtain y ys where "R x y" "list_all2 R xs ys" by auto
  then have "list_all2 R (x # xs) (y # ys)" by simp
  then show ?case by blast
qed

lemma item_video_id_obj:
  "py_getitem item ''id'' = Inr (JObj i) \<Longrightarrow> item_video_id item = Inr (field_or i ''videoId'' JNull)"
  by (simp add: item_video_id_def py_get_obj del: py_get.simps)

lemma summary_of_exists:
  assumes "has_facet item ''id''" and "has_thumbnail item ''default''"
  shows "\<exists>d. summary_of item d"
proof -
  from assms(1) obtain i where i: "py_getitem item ''id'' = Inr (JObj i)"
    by (auto simp: has_facet_iff)
  from assms(2) obtain url where url: "thumbnail_url item ''default'' = Inr url"
    by (auto simp: has_thumbnail_iff)
  from thumbnail_url_snippet [OF url] obtain sn where sn: "py_getitem item ''snippet'' = Inr (JObj sn)"
    by blast
  show ?thesis
    unfolding summary_of_def
    using item_video_id_obj [OF i] short_data_closed [OF sn url] by blast
qed

lemma summary_of_video_id:
  assumes "summary_of item d" and "has_video_id item"
  shows "\<exists>v. py_getitem d ''video_id'' = Inr v \<and> v \<noteq> JNull \<and> truthy v"
proof -
  from assms(1) obtain v where v: "item_video_id item = Inr v" "short_data v item = Inr d"
    by (auto simp: summary_of_def)
  with assms(2) have "truthy v" by (simp add: has_video_id_def)
  moreover from this have "v \<noteq> JNull" by auto
  ultimately show ?thesis using short_data_video_id [OF v(2)] by blast
qed

lemma search_result_iff:
  assumes "upstream env (search_request query max_results) = Inr response"
      and "response_items response = Inr items"
  shows "fst (YouTubeAPI_search_shorts env query max_results w) = Inr r \<longleftrightarrow>
           (\<forall>item \<in> set items. \<exists>video_id. item_video_id item = Inr video_id) \<and>
           (\<exists>out. r = JList out \<and> list_all2 summary_of (filter has_video_id items) out)"
  using assms
  by (auto simp: fst_YouTubeAPI_search_shorts bind_exn_eq_Inr search_loop_iff)

lemma short_data_search_item:
  "short_data (JStr vid) (search_item vid) = Inr (search_summary vid)"
  by (simp add: search_item_def search_summary_def thumbnails_of_def short_data_def
        snippet_get_def thumbnail_url_def)

lemma item_video_id_search_item: "item_video_id (search_item vid) = Inr (JStr vid)"
  by (simp add: search_item_def item_video_id_def)

lemma item_video_id_channel_item: "item_video_id channel_item = Inr JNull"
  by (simp add: channel_item_def item_video_id_def)

lemma search_loop_sample:
  "search_loop [search_item ''a1'', channel_item, search_item ''a2''] [] =
     Inr [search_summary ''a1'', search_summary ''a2'']"
  by (simp add: item_video_id_search_item item_video_id_channel_item short_data_search_item)

lemma search_loop_three:
  "search_loop [search_item ''a1'', search_item ''a2'', search_item ''a3''] [] =
     Inr [search_summary ''a1'', search_summary ''a2'', search_summary ''a3'']"
  by (simp add: item_video_id_search_item short_data_search_item)

lemma video_details_statistics:
  assumes "video_details video_id item = Inr d"
  shows "\<exists>st. py_getitem item ''statistics'' = Inr (JObj st) \<and>
              py_getitem d ''view_count'' = Inr (field_or st ''viewCount'' (JInt 0)) \<and>
              py_getitem d ''like_count'' = Inr (field_or st ''likeCount'' (JInt 0)) \<and>
              py_getitem d ''comment_count'' = Inr (field_or st ''commentCount'' (JInt 0))"
proof -
  from assms obtain v l c where
    v: "statistics_get item ''viewCount'' = Inr v" and
    l: "statistics_get item ''likeCount'' = Inr l" and
    c: "statistics_get item ''commentCount'' = Inr c" and
    d: "py_getitem d ''view_count'' = Inr v" "py_getitem d ''like_count'' = Inr l"
       "py_getitem d ''comment_count'' = Inr c"
    by (auto simp: video_details_def bind_exn_eq_Inr)
  from statistics_get_Inr [OF v] obtain st where
    st: "py_getitem item ''statistics'' = Inr (JObj st)" "v = field_or st ''viewCount'' (JInt 0)"
    by blast
  from statistics_get_Inr [OF l] st(1) have "l = field_or st ''likeCount'' (JInt 0)" by auto
  moreover from statistics_get_Inr [OF c] st(1) have "c = field_or st ''commentCount'' (JInt 0)" by auto
  ultimately show ?thesis using st d by blast
qed

lemma trending_data_statistics:
  assumes "trending_data item = Inr d"
  shows "\<exists>st. py_getitem item ''statistics'' = Inr (JObj st) \<and>
              py_getitem d ''view_count'' = Inr (field_or st ''viewCount'' (JInt 0))"
proof -
  from assms obtain v where
    v: "statistics_get item ''viewCount'' = Inr v" and d: "py_getitem d ''view_count'' = Inr v"
    by (auto simp: trending_data_def bind_exn_eq_Inr)
  from statistics_get_Inr [OF v] d show ?thesis by blast
qed

lemma video_details_video_item:
  "video_details video_id (video_item vid st) =
     Inr (video_detail video_id vid (field_or st ''viewCount'' (JInt 0))
            (field_or st ''likeCount'' (JInt 0)) (field_or st ''commentCount'' (JInt 0)))"
  by (simp add: video_details_def video_item_def video_detail_def thumbnails_of_def
        snippet_get_def statistics_get_def thumbnail_url_def py_get_obj field_or_def
        del: py_get.simps)

lemma trending_data_video_item:
  "trending_data (video_item vid st) = Inr (trending_entry vid (field_or st ''viewCount'' (JInt 0)))"
  by (simp add: trending_data_def video_item_def trending_entry_def thumbnails_of_def
        snippet_get_def statistics_get_def thumbnail_url_def py_get_obj field_or_def
        del: py_get.simps)

lemma details_of_single_item:
  "fst (YouTubeAPI_get_video_details (stub_env (Inr (items_response [item]))) video_id w) =
     video_details video_id item"
  by (simp add: fst_YouTubeAPI_get_video_details stub_env_def items_response_def)

lemma trending_of_single_item:
  "fst (YouTubeAPI_get_trending_shorts (stub_env (Inr (items_response [item]))) region_code max_results w) =
     bind_exn (trending_data item) (\<lambda>d. Inr (JList [d]))"
  by (cases "trending_data item")
     (simp_all add: fst_YouTubeAPI_get_trending_shorts stub_env_def items_response_def response_items_def)

lemma upstream_resource_env_search:
  "upstream (resource_env a b) (search_request q n) = a"
  by (simp add: resource_env_def search_request_def)

lemma upstream_resource_env_videos:
  "upstream (resource_env a b) (trending_request r n) = b"
  by (simp add: resource_env_def trending_request_def)

section \<open>The claims\<close>

text \<open>
  Each claim is stated on the functions above. Where a property depends on what the
  upstream answers, the answer is a hypothesis on \<open>upstream env\<close> at the query the source
  issues. \<^verbatim>\<open>get_channel_shorts\<close> is bound to no route and no claim is about it.
\<close>

subsection \<open>C1: absent fields and absent facets\<close>

text \<open>
  Claim C1, as amended. For every upstream item that carries the facets the normalizer
  subscripts (for search an \<^verbatim>\<open>id\<close> object and a \<^verbatim>\<open>snippet\<close> with
  \<^verbatim>\<open>thumbnails.default.url\<close>; for the details \<^verbatim>\<open>contentDetails\<close>, \<^verbatim>\<open>statistics\<close> and a
  \<^verbatim>\<open>snippet\<close> with \<^verbatim>\<open>thumbnails.high.url\<close>; for trending \<^verbatim>\<open>id\<close>, \<^verbatim>\<open>statistics\<close> and a
  \<^verbatim>\<open>snippet\<close> with \<^verbatim>\<open>thumbnails.default.url\<close>), normalization completes without an
  exception, and every field inside those facets that is absent is mapped to its
  default: null for the strings, zero for the counts, the empty sequence for the tags,
  the empty string for the duration.
\<close>

theorem normalization_defaults_given_facets:
  "(py_getitem item1 ''id'' = Inr (JObj i) \<longrightarrow>
      item_video_id item1 = Inr (field_or i ''videoId'' JNull)) \<and>
   (py_getitem item2 ''snippet'' = Inr (JObj sn2) \<and> thumbnail_url item2 ''default'' = Inr url2 \<longrightarrow>
      short_data video_id2 item2 =
        Inr (JObj
          [(''video_id'', video_id2),
           (''title'', field_or sn2 ''title'' JNull),
           (''description'', field_or sn2 ''description'' JNull),
           (''thumbnail'', url2),
           (''channel_title'', field_or sn2 ''channelTitle'' JNull),
           (''published_at'', field_or sn2 ''publishedAt'' JNull)])) \<and>
   (py_getitem item3 ''contentDetails'' = Inr (JObj cd3) \<and>
    py_getitem item3 ''snippet'' = Inr (JObj sn3) \<and>
    thumbnail_url item3 ''high'' = Inr url3 \<and>
    py_getitem item3 ''statistics'' = Inr (JObj st3) \<longrightarrow>
      video_details video_id3 item3 =
        Inr (JObj
          [(''video_id'', JStr video_id3),
           (''title'', field_or sn3 ''title'' JNull),
           (''description'', field_or sn3 ''description'' JNull),
           (''channel_id'', field_or sn3 ''channelId'' JNull),
           (''channel_title'', field_or sn3 ''channelTitle'' JNull),
           (''published_at'', field_or sn3 ''publishedAt'' JNull),
           (''thumbnail'', url3),
           (''duration'', field_or cd3 ''duration'' (JStr [])),
           (''view_count'', field_or st3 ''viewCount'' (JInt 0)),
           (''like_count'', field_or st3 ''likeCount'' (JInt 0)),
           (''comment_count'', field_or st3 ''commentCount'' (JInt 0)),
           (''tags'', field_or sn3 ''tags'' (JList [])),
           (''category_id'', field_or sn3 ''categoryId'' JNull)])) \<and>
   (py_getitem item4 ''id'' = Inr video_id4 \<and>
    py_getitem item4 ''snippet'' = Inr (JObj sn4) \<and>
    thumbnail_url item4 ''default'' = Inr url4 \<and>
    py_getitem item4 ''statistics'' = Inr (JObj st4) \<longrightarrow>
      trending_data item4 =
        Inr (JObj
          [(''video_id'', video_id4),
           (''title'', field_or sn4 ''title'' JNull),
           (''description'', field_or sn4 ''description'' JNull),
           (''thumbnail'', url4),
           (''channel_title'', field_or sn4 ''channelTitle'' JNull),
           (''published_at'', field_or sn4 ''publishedAt'' JNull),
           (''view_count'', field_or st4 ''viewCount'' (JInt 0))])) \<and>
   field_or kvs k d = (case map_of kvs k of None \<Rightarrow> d | Some v \<Rightarrow> v)"
proof (intro conjI impI)
  assume "py_getitem item1 ''id'' = Inr (JObj i)"
  then show "item_video_id item1 = Inr (field_or i ''videoId'' JNull)"
    by (rule item_video_id_obj)
next
  assume "py_getitem item2 ''snippet'' = Inr (JObj sn2) \<and> thumbnail_url item2 ''default'' = Inr url2"
  then show "short_data video_id2 item2 =
        Inr (JObj
          [(''video_id'', video_id2),
           (''title'', field_or sn2 ''title'' JNull),
           (''description'', field_or sn2 ''description'' JNull),
           (''thumbnail'', url2),
           (''channel_title'', field_or sn2 ''channelTitle'' JNull),
           (''published_at'', field_or sn2 ''publishedAt'' JNull)])"
    by (simp add: short_data_closed)
next
  assume "py_getitem item3 ''contentDetails'' = Inr (JObj cd3) \<and>
    py_getitem item3 ''snippet'' = Inr (JObj sn3) \<and>
    thumbnail_url item3 ''high'' = Inr url3 \<and>
    py_getitem item3 ''statistics'' = Inr (JObj st3)"
  then show "video_details video_id3 item3 =
        Inr (JObj
          [(''video_id'', JStr video_id3),
           (''title'', field_or sn3 ''title'' JNull),
           (''description'', field_or sn3 ''description'' JNull),
           (''channel_id'', field_or sn3 ''channelId'' JNull),
           (''channel_title'', field_or sn3 ''channelTitle'' JNull),
           (''published_at'', field_or sn3 ''publishedAt'' JNull),
           (''thumbnail'', url3),
           (''duration'', field_or cd3 ''duration'' (JStr [])),
           (''view_count'', field_or st3 ''viewCount'' (JInt 0)),
           (''like_count'', field_or st3 ''likeCount'' (JInt 0)),
           (''comment_count'', field_or st3 ''commentCount'' (JInt 0)),
           (''tags'', field_or sn3 ''tags'' (JList [])),
           (''category_id'', field_or sn3 ''categoryId'' JNull)])"
    by (simp add: video_details_closed)
next
  assume "py_getitem item4 ''id'' = Inr video_id4 \<and>
    py_getitem item4 ''snippet'' = Inr (JObj sn4) \<and>
    thumbnail_url item4 ''default'' = Inr url4 \<and>
    py_getitem item4 ''statistics'' = Inr (JObj st4)"
  then show "trending_data item4 =
        Inr (JObj
          [(''video_id'', video_id4),
           (''title'', field_or sn4 ''title'' JNull),
           (''description'', field_or sn4 ''description'' JNull),
           (''thumbnail'', url4),
           (''channel_title'', field_or sn4 ''channelTitle'' JNull),
           (''published_at'', field_or sn4 ''publishedAt'' JNull),
           (''view_count'', field_or st4 ''viewCount'' (JInt 0))])"
    by (simp add: trending_data_closed)
next
  show "field_or kvs k d = (case map_of kvs k of None \<Rightarrow> d | Some v \<Rightarrow> v)"
    by (simp add: field_or_def)
qed

theorem normalization_defaults_given_facets_witness:
  "py_getitem (search_item ''a1'') ''id''
     = Inr (JObj [(''kind'', JStr ''youtube#video''), (''videoId'', JStr ''a1'')]) \<and>
   (py_getitem (search_item ''a1'') ''snippet''
      = Inr (JObj [(''title'', JStr ''Short a1''), (''thumbnails'', thumbnails_of ''a1'')]) \<and>
    thumbnail_url (search_item ''a1'') ''default'' = Inr (JStr ''https://i.ytimg.com/vi/a1/default.jpg'')) \<and>
   (py_getitem (video_item ''b'' []) ''contentDetails'' = Inr (JObj [(''duration'', JStr ''PT30S'')]) \<and>
    py_getitem (video_item ''b'' []) ''snippet''
      = Inr (JObj [(''title'', JStr ''Short b''), (''thumbnails'', thumbnails_of ''b'')]) \<and>
    thumbnail_url (video_item ''b'' []) ''high'' = Inr (JStr ''https://i.ytimg.com/vi/b/hqdefault.jpg'') \<and>
    py_getitem (video_item ''b'' []) ''statistics'' = Inr (JObj [])) \<and>
   (py_getitem (video_item ''b'' []) ''id'' = Inr (JStr ''b'') \<and>
    thumbnail_url (video_item ''b'' []) ''default'' = Inr (JStr ''https://i.ytimg.com/vi/b/default.jpg'')) \<and>
   item_video_id (search_item ''a1'') = Inr (JStr ''a1'') \<and>
   short_data (JStr ''a1'') (search_item ''a1'') = Inr (search_summary ''a1'') \<and>
   video_details ''b'' (video_item ''b'' []) = Inr (video_detail ''b'' ''b'' (JInt 0) (JInt 0) (JInt 0)) \<and>
   trending_data (video_item ''b'' []) = Inr (trending_entry ''b'' (JInt 0))"
proof -
  have h1: "py_getitem (search_item ''a1'') ''id''
     = Inr (JObj [(''kind'', JStr ''youtube#video''), (''videoId'', JStr ''a1'')])"
    by (simp add: search_item_def)
  have h2: "py_getitem (search_item ''a1'') ''snippet''
      = Inr (JObj [(''title'', JStr ''Short a1''), (''thumbnails'', thumbnails_of ''a1'')]) \<and>
    thumbnail_url (search_item ''a1'') ''default'' = Inr (JStr ''https://i.ytimg.com/vi/a1/default.jpg'')"
    by (simp add: search_item_def thumbnail_url_def thumbnails_of_def)
  have h3: "py_getitem (video_item ''b'' []) ''contentDetails'' = Inr (JObj [(''duration'', JStr ''PT30S'')]) \<and>
    py_getitem (video_item ''b'' []) ''snippet''
      = Inr (JObj [(''title'', JStr ''Short b''), (''thumbnails'', thumbnails_of ''b'')]) \<and>
    thumbnail_url (video_item ''b'' []) ''high'' = Inr (JStr ''https://i.ytimg.com/vi/b/hqdefault.jpg'') \<and>
    py_getitem (video_item ''b'' []) ''statistics'' = Inr (JObj [])"
    by (simp add: video_item_def thumbnail_url_def thumbnails_of_def)
  have h4: "py_getitem (video_item ''b'' []) ''id'' = Inr (JStr ''b'') \<and>
    thumbnail_url (video_item ''b'' []) ''default'' = Inr (JStr ''https://i.ytimg.com/vi/b/default.jpg'')"
    by (simp add: video_item_def thumbnail_url_def thumbnails_of_def)
  note t = normalization_defaults_given_facets
    [of "search_item ''a1''" "[(''kind'', JStr ''youtube#video''), (''videoId'', JStr ''a1'')]"
        "search_item ''a1''" "[(''title'', JStr ''Short a1''), (''thumbnails'', thumbnails_of ''a1'')]"
        "JStr ''https://i.ytimg.com/vi/a1/default.jpg''" "JStr ''a1''"
        "video_item ''b'' []" "[(''duration'', JStr ''PT30S'')]"
        "[(''title'', JStr ''Short b''), (''thumbnails'', thumbnails_of ''b'')]"
        "JStr ''https://i.ytimg.com/vi/b/hqdefault.jpg''" "[]" "''b''"
        "video_item ''b'' []" "JStr ''b''"
        "[(''title'', JStr ''Short b''), (''thumbnails'', thumbnails_of ''b'')]"
        "JStr ''https://i.ytimg.com/vi/b/default.jpg''" "[]"]
  from t h1 have c1: "item_video_id (search_item ''a1'') = Inr (JStr ''a1'')"
    by (simp add: field_or_def)
  from t h2 have c2: "short_data (JStr ''a1'') (search_item ''a1'') = Inr (search_summary ''a1'')"
    by (simp add: field_or_def search_summary_def)
  from t h3 have c3: "video_details ''b'' (video_item ''b'' [])
                        = Inr (video_detail ''b'' ''b'' (JInt 0) (JInt 0) (JInt 0))"
    by (simp add: field_or_def video_detail_def)
  from t h3 h4 have c4: "trending_data (video_item ''b'' []) = Inr (trending_entry ''b'' (JInt 0))"
    by (simp add: field_or_def trending_entry_def)
  from h1 h2 h3 h4 c1 c2 c3 c4 show ?thesis by blast
qed

text \<open>
  The claim as first stated, with the facets themselves optional, fails: the source reads
  them by plain subscripts. Three instances: a search item with a video identifier and no
  thumbnails sub-object, a detail item with no \<^verbatim>\<open>contentDetails\<close>, and a trending item
  with no \<^verbatim>\<open>statistics\<close>. Each raises \<^verbatim>\<open>KeyError\<close>, and for the last the caller of
  the trending endpoint receives HTTP 500 with the name of the missing key.
\<close>

theorem missing_facet_raises_counterexample:
  "fst (YouTubeAPI_search_shorts
          (stub_env (Inr (items_response
             [JObj [(''id'', JObj [(''kind'', JStr ''youtube#video''), (''videoId'', JStr ''a1'')]),
                    (''snippet'', JObj [(''title'', JStr ''Short a1''), (''description'', JStr ''no thumbnails'')])]])))
          ''cats'' 10 w0)
     = Inl (Exn KeyError (py_repr_key ''thumbnails'')) \<and>
   fst (YouTubeAPI_get_video_details
          (stub_env (Inr (items_response
             [JObj [(''id'', JStr ''b''),
                    (''snippet'', JObj [(''title'', JStr ''Short b''), (''thumbnails'', thumbnails_of ''b'')]),
                    (''statistics'', JObj [(''viewCount'', JStr ''5'')])]])))
          ''b'' w0)
     = Inl (Exn KeyError (py_repr_key ''contentDetails'')) \<and>
   fst (YouTubeAPI_get_trending_shorts
          (stub_env (Inr (items_response
             [JObj [(''id'', JStr ''b''),
                    (''snippet'', JObj [(''title'', JStr ''Short b''), (''thumbnails'', thumbnails_of ''b'')]),
                    (''contentDetails'', JObj [(''duration'', JStr ''PT30S'')])]])))
          ''US'' 10 w0)
     = Inl (Exn KeyError (py_repr_key ''statistics'')) \<and>
   fst (get_trending_shorts
          (stub_env (Inr (items_response
             [JObj [(''id'', JStr ''b''),
                    (''snippet'', JObj [(''title'', JStr ''Short b''), (''thumbnails'', thumbnails_of ''b'')]),
                    (''contentDetails'', JObj [(''duration'', JStr ''PT30S'')])]])))
          Map.empty w0)
     = \<lparr>status = 500, body = JObj [(''error'', JStr (py_repr_key ''statistics''))]\<rparr>"
proof -
  have a: "fst (YouTubeAPI_search_shorts
          (stub_env (Inr (items_response
             [JObj [(''id'', JObj [(''kind'', JStr ''youtube#video''), (''videoId'', JStr ''a1'')]),
                    (''snippet'', JObj [(''title'', JStr ''Short a1''), (''description'', JStr ''no thumbnails'')])]])))
          ''cats'' 10 w0)
     = Inl (Exn KeyError (py_repr_key ''thumbnails''))"
    by (simp add: fst_YouTubeAPI_search_shorts stub_env_def items_response_def response_items_def
          item_video_id_def short_data_def snippet_get_def thumbnail_url_def)
  have b: "fst (YouTubeAPI_get_video_details
          (stub_env (Inr (items_response
             [JObj [(''id'', JStr ''b''),
                    (''snippet'', JObj [(''title'', JStr ''Short b''), (''thumbnails'', thumbnails_of ''b'')]),
                    (''statistics'', JObj [(''viewCount'', JStr ''5'')])]])))
          ''b'' w0)
     = Inl (Exn KeyError (py_repr_key ''contentDetails''))"
    by (simp add: details_of_single_item video_details_def)
  have c: "fst (YouTubeAPI_get_trending_shorts
          (stub_env (Inr (items_response
             [JObj [(''id'', JStr ''b''),
                    (''snippet'', JObj [(''title'', JStr ''Short b''), (''thumbnails'', thumbnails_of ''b'')]),
                    (''contentDetails'', JObj [(''duration'', JStr ''PT30S'')])]])))
          region_code max_results w0)
     = Inl (Exn KeyError (py_repr_key ''statistics''))" for region_code max_results
    by (simp add: trending_of_single_item trending_data_def snippet_get_def statistics_get_def
          thumbnail_url_def thumbnails_of_def)
  have d: "fst (get_trending_shorts
          (stub_env (Inr (items_response
             [JObj [(''id'', JStr ''b''),
                    (''snippet'', JObj [(''title'', JStr ''Short b''), (''thumbnails'', thumbnails_of ''b'')]),
                    (''contentDetails'', JObj [(''duration'', JStr ''PT30S'')])]])))
          Map.empty w0)
     = \<lparr>status = 500, body = JObj [(''error'', JStr (py_repr_key ''statistics''))]\<rparr>"
    by (simp add: fst_get_trending_shorts c error_envelope_def)
  from a b c d show ?thesis by blast
qed

subsection \<open>C2: the count fields\<close>

text \<open>
  Claim C2, as amended. Every record that \<^verbatim>\<open>get_video_details\<close> or
  \<^verbatim>\<open>get_trending_shorts\<close> produces comes from an item whose \<^verbatim>\<open>statistics\<close> facet is
  present as an object, and each count field of the record (\<^verbatim>\<open>view_count\<close>,
  \<^verbatim>\<open>like_count\<close>, \<^verbatim>\<open>comment_count\<close> for the details; \<^verbatim>\<open>view_count\<close> for a trending
  entry) is the upstream statistics value unchanged when the facet has one, and the
  integer 0 when the facet has none. It is therefore a non-negative integer exactly when
  the upstream value is one or is absent.
\<close>

theorem count_fields_are_upstream_values_or_zero:
  "(fst (YouTubeAPI_get_video_details env video_id w) = Inr d \<and> d \<noteq> JNull \<longrightarrow>
      (\<exists>response items item st.
         upstream env (details_request video_id) = Inr response \<and>
         py_getitem response ''items'' = Inr items \<and>
         py_getitem0 items = Inr item \<and>
         py_getitem item ''statistics'' = Inr (JObj st) \<and>
         py_getitem d ''view_count'' = Inr (field_or st ''viewCount'' (JInt 0)) \<and>
         py_getitem d ''like_count'' = Inr (field_or st ''likeCount'' (JInt 0)) \<and>
         py_getitem d ''comment_count'' = Inr (field_or st ''commentCount'' (JInt 0)))) \<and>
   (upstream env (trending_request region_code max_results) = Inr response' \<and>
    response_items response' = Inr items' \<and>
    fst (YouTubeAPI_get_trending_shorts env region_code max_results w) = Inr (JList out) \<longrightarrow>
      list_all2
        (\<lambda>item e. \<exists>st. py_getitem item ''statistics'' = Inr (JObj st) \<and>
                        py_getitem e ''view_count'' = Inr (field_or st ''viewCount'' (JInt 0)))
        items' out) \<and>
   field_or st' k (JInt 0) = (case map_of st' k of None \<Rightarrow> JInt 0 | Some v \<Rightarrow> v)"
proof (intro conjI impI)
  assume a: "fst (YouTubeAPI_get_video_details env video_id w) = Inr d \<and> d \<noteq> JNull"
  then obtain response items_value items item where
    r: "upstream env (details_request video_id) = Inr response" and
    i: "py_getitem response ''items'' = Inr items" and
    f: "py_getitem0 items = Inr item" and
    v: "video_details video_id item = Inr d"
    by (auto simp: fst_YouTubeAPI_get_video_details bind_exn_eq_Inr split: if_splits)
  from video_details_statistics [OF v] r i f
  show "\<exists>response items item st.
         upstream env (details_request video_id) = Inr response \<and>
         py_getitem response ''items'' = Inr items \<and>
         py_getitem0 items = Inr item \<and>
         py_getitem item ''statistics'' = Inr (JObj st) \<and>
         py_getitem d ''view_count'' = Inr (field_or st ''viewCount'' (JInt 0)) \<and>
         py_getitem d ''like_count'' = Inr (field_or st ''likeCount'' (JInt 0)) \<and>
         py_getitem d ''comment_count'' = Inr (field_or st ''commentCount'' (JInt 0))"
    by blast
next
  assume a: "upstream env (trending_request region_code max_results) = Inr response' \<and>
    response_items response' = Inr items' \<and>
    fst (YouTubeAPI_get_trending_shorts env region_code max_results w) = Inr (JList out)"
  then have "list_all2 (\<lambda>item e. trending_data item = Inr e) items' out"
    by (auto simp: fst_YouTubeAPI_get_trending_shorts bind_exn_eq_Inr trending_loop_iff)
  then show "list_all2
        (\<lambda>item e. \<exists>st. py_getitem item ''statistics'' = Inr (JObj st) \<and>
                        py_getitem e ''view_count'' = Inr (field_or st ''viewCount'' (JInt 0)))
        items' out"
    by (rule list_all2_mono) (rule trending_data_statistics)
next
  show "field_or st' k (JInt 0) = (case map_of st' k of None \<Rightarrow> JInt 0 | Some v \<Rightarrow> v)"
    by (simp add: field_or_def)
qed

theorem count_fields_are_upstream_values_or_zero_witness:
  "(fst (YouTubeAPI_get_video_details
           (stub_env (Inr (items_response [video_item ''b'' [(''viewCount'', JStr ''12345'')]]))) ''b'' w0)
      = Inr (video_detail ''b'' ''b'' (JStr ''12345'') (JInt 0) (JInt 0)) \<and>
    video_detail ''b'' ''b'' (JStr ''12345'') (JInt 0) (JInt 0) \<noteq> JNull) \<and>
   (upstream (stub_env (Inr (items_response [video_item ''b'' [(''viewCount'', JStr ''12345'')]])))
        (trending_request ''US'' 10)
      = Inr (items_response [video_item ''b'' [(''viewCount'', JStr ''12345'')]]) \<and>
    response_items (items_response [video_item ''b'' [(''viewCount'', JStr ''12345'')]])
      = Inr [video_item ''b'' [(''viewCount'', JStr ''12345'')]] \<and>
    fst (YouTubeAPI_get_trending_shorts
           (stub_env (Inr (items_response [video_item ''b'' [(''viewCount'', JStr ''12345'')]]))) ''US'' 10 w0)
      = Inr (JList [trending_entry ''b'' (JStr ''12345'')])) \<and>
   (\<exists>response items item st.
      upstream (stub_env (Inr (items_response [video_item ''b'' [(''viewCount'', JStr ''12345'')]])))
        (details_request ''b'') = Inr response \<and>
      py_getitem response ''items'' = Inr items \<and>
      py_getitem0 items = Inr item \<and>
      py_getitem item ''statistics'' = Inr (JObj st) \<and>
      py_getitem (video_detail ''b'' ''b'' (JStr ''12345'') (JInt 0) (JInt 0)) ''view_count''
        = Inr (field_or st ''viewCount'' (JInt 0)) \<and>
      py_getitem (video_detail ''b'' ''b'' (JStr ''12345'') (JInt 0) (JInt 0)) ''like_count''
        = Inr (field_or st ''likeCount'' (JInt 0)) \<and>
      py_getitem (video_detail ''b'' ''b'' (JStr ''12345'') (JInt 0) (JInt 0)) ''comment_count''
        = Inr (field_or st ''commentCount'' (JInt 0))) \<and>
   list_all2
     (\<lambda>item e. \<exists>st. py_getitem item ''statistics'' = Inr (JObj st) \<and>
                     py_getitem e ''view_count'' = Inr (field_or st ''viewCount'' (JInt 0)))
     [video_item ''b'' [(''viewCount'', JStr ''12345'')]] [trending_entry ''b'' (JStr ''12345'')]"
proof -
  let ?item = "video_item ''b'' [(''viewCount'', JStr ''12345'')]"
  let ?env = "stub_env (Inr (items_response [?item]))"
  let ?d = "video_detail ''b'' ''b'' (JStr ''12345'') (JInt 0) (JInt 0)"
  have h1: "fst (YouTubeAPI_get_video_details ?env ''b'' w0) = Inr ?d \<and> ?d \<noteq> JNull"
    by (simp add: details_of_single_item video_details_video_item field_or_def video_detail_def)
  have h2: "upstream ?env (trending_request ''US'' 10) = Inr (items_response [?item]) \<and>
            response_items (items_response [?item]) = Inr [?item] \<and>
            fst (YouTubeAPI_get_trending_shorts ?env ''US'' 10 w0)
              = Inr (JList [trending_entry ''b'' (JStr ''12345'')])"
  proof (intro conjI)
    show "upstream ?env (trending_request ''US'' 10) = Inr (items_response [?item])"
      by (simp add: stub_env_def)
    show "response_items (items_response [?item]) = Inr [?item]"
      by (simp add: response_items_def items_response_def)
    show "fst (YouTubeAPI_get_trending_shorts ?env ''US'' 10 w0)
            = Inr (JList [trending_entry ''b'' (JStr ''12345'')])"
      by (simp add: trending_of_single_item trending_data_video_item field_or_def)
  qed
  from count_fields_are_upstream_values_or_zero
         [of ?env "''b''" w0 ?d "''US''" 10 "items_response [?item]" "[?item]"
             "[trending_entry ''b'' (JStr ''12345'')]"]
       h1 h2
  show ?thesis by blast
qed

text \<open>
  The claim as first stated fails twice. The normalizers never convert a count: an
  upstream \<^verbatim>\<open>viewCount\<close> given as the string \<^verbatim>\<open>"12345"\<close> comes out as that string, not
  as an integer. And an item with no \<^verbatim>\<open>statistics\<close> facet gives no record with zero
  counts: \<^verbatim>\<open>item["statistics"]\<close> raises \<^verbatim>\<open>KeyError\<close>.
\<close>

theorem count_fields_counterexample:
  "fst (YouTubeAPI_get_video_details
          (stub_env (Inr (items_response [video_item ''b'' [(''viewCount'', JStr ''12345'')]]))) ''b'' w0)
     = Inr (video_detail ''b'' ''b'' (JStr ''12345'') (JInt 0) (JInt 0)) \<and>
   py_getitem (video_detail ''b'' ''b'' (JStr ''12345'') (JInt 0) (JInt 0)) ''view_count''
     = Inr (JStr ''12345'') \<and>
   fst (YouTubeAPI_get_trending_shorts
          (stub_env (Inr (items_response
             [JObj [(''id'', JStr ''b''),
                    (''snippet'', JObj [(''title'', JStr ''Short b''), (''thumbnails'', thumbnails_of ''b'')])]])))
          ''US'' 10 w0)
     = Inl (Exn KeyError (py_repr_key ''statistics'')) \<and>
   fst (YouTubeAPI_get_video_details
          (stub_env (Inr (items_response
             [JObj [(''id'', JStr ''b''),
                    (''snippet'', JObj [(''title'', JStr ''Short b''), (''thumbnails'', thumbnails_of ''b'')]),
                    (''contentDetails'', JObj [(''duration'', JStr ''PT30S'')])]])))
          ''b'' w0)
     = Inl (Exn KeyError (py_repr_key ''statistics''))"
proof -
  have a: "fst (YouTubeAPI_get_video_details
          (stub_env (Inr (items_response [video_item ''b'' [(''viewCount'', JStr ''12345'')]]))) ''b'' w0)
     = Inr (video_detail ''b'' ''b'' (JStr ''12345'') (JInt 0) (JInt 0))"
    by (simp add: details_of_single_item video_details_video_item field_or_def)
  have b: "py_getitem (video_detail ''b'' ''b'' (JStr ''12345'') (JInt 0) (JInt 0)) ''view_count''
     = Inr (JStr ''12345'')"
    by (simp add: video_detail_def)
  have c: "fst (YouTubeAPI_get_trending_shorts
          (stub_env (Inr (items_response
             [JObj [(''id'', JStr ''b''),
                    (''snippet'', JObj [(''title'', JStr ''Short b''), (''thumbnails'', thumbnails_of ''b'')])]])))
          ''US'' 10 w0)
     = Inl (Exn KeyError (py_repr_key ''statistics''))"
    by (simp add: trending_of_single_item trending_data_def snippet_get_def statistics_get_def
          thumbnail_url_def thumbnails_of_def)
  have d: "fst (YouTubeAPI_get_video_details
          (stub_env (Inr (items_response
             [JObj [(''id'', JStr ''b''),
                    (''snippet'', JObj [(''title'', JStr ''Short b''), (''thumbnails'', thumbnails_of ''b'')]),
                    (''contentDetails'', JObj [(''duration'', JStr ''PT30S'')])]])))
          ''b'' w0)
     = Inl (Exn KeyError (py_repr_key ''statistics''))"
    by (simp add: details_of_single_item video_details_def snippet_get_def statistics_get_def
          thumbnail_url_def thumbnails_of_def)
  from a b c d show ?thesis by blast
qed

subsection \<open>C3: length and identifiers of the search result\<close>

text \<open>
  Claim C3. For every non-empty query \<^verbatim>\<open>q\<close> and every \<^verbatim>\<open>max_results\<close>, the sequence
  returned by the search operation has length at most \<^verbatim>\<open>max_results\<close>, and every
  entry's \<^verbatim>\<open>video_id\<close> is non-null. The docstring of \<^verbatim>\<open>YouTubeAPI.search_shorts\<close>
  promises the bound (\<^verbatim>\<open>max_results: Maximum number of results to return\<close>), but the
  method only passes the value on as \<^verbatim>\<open>maxResults\<close> and returns a summary for every
  item of the response that has a video identifier; it never truncates. At the request
  \<^verbatim>\<open>q=cats&max_results=2\<close>, with an upstream response that lists the three video items
  a1, a2, a3, the method and the endpoint return three entries.
\<close>

theorem search_returns_more_than_max_results:
  "args_get_int (stub_env (Inr (items_response [search_item ''a1'', search_item ''a2'', search_item ''a3''])))
      [''q'' \<mapsto> ''cats'', ''max_results'' \<mapsto> ''2''] ''max_results'' 10 = 2 \<and>
   fst (search_shorts (stub_env (Inr (items_response [search_item ''a1'', search_item ''a2'', search_item ''a3''])))
         [''q'' \<mapsto> ''cats'', ''max_results'' \<mapsto> ''2''] w0)
     = \<lparr>status = 200,
        body = success_envelope (JList [search_summary ''a1'', search_summary ''a2'', search_summary ''a3''])\<rparr> \<and>
   fst (YouTubeAPI_search_shorts
          (stub_env (Inr (items_response [search_item ''a1'', search_item ''a2'', search_item ''a3''])))
          ''cats'' 2 w0)
     = Inr (JList [search_summary ''a1'', search_summary ''a2'', search_summary ''a3'']) \<and>
   \<not> int (length [search_summary ''a1'', search_summary ''a2'', search_summary ''a3'']) \<le> 2"
proof -
  let ?items = "[search_item ''a1'', search_item ''a2'', search_item ''a3'']"
  let ?env = "stub_env (Inr (items_response ?items))"
  let ?args = "[''q'' \<mapsto> ''cats'', ''max_results'' \<mapsto> ''2'']"
  have n: "args_get_int ?env ?args ''max_results'' 10 = 2"
    by (simp add: args_get_int_def stub_env_def decimal_def)
  have h1: "?args ''q'' = Some ''cats''" by simp
  have h2: "''cats'' \<noteq> []" by simp
  have h4: "response_items (items_response ?items) = Inr ?items"
    by (simp add: response_items_def items_response_def)
  have u: "upstream ?env c = Inr (items_response ?items)" for c
    by (simp add: stub_env_def)
  have r: "fst (search_shorts ?env ?args w0)
             = \<lparr>status = 200,
                body = success_envelope (JList [search_summary ''a1'', search_summary ''a2'', search_summary ''a3''])\<rparr>"
    by (simp add: fst_search_shorts [where args = ?args, OF h1 h2] fst_YouTubeAPI_search_shorts
          u h4 search_loop_three del: search_loop.simps)
  have y: "fst (YouTubeAPI_search_shorts ?env ''cats'' 2 w0)
             = Inr (JList [search_summary ''a1'', search_summary ''a2'', search_summary ''a3''])"
    by (simp add: fst_YouTubeAPI_search_shorts u h4 search_loop_three del: search_loop.simps)
  from n r y show ?thesis by simp
qed

text \<open>
  What the source does ensure: the sequence in a 200 response is no longer than the
  upstream response's item list, so the bound holds whenever the upstream response
  itself has at most \<^verbatim>\<open>max_results\<close> items, and every entry's \<^verbatim>\<open>video_id\<close> is non-null
  and non-empty.
\<close>

lemma search_length_and_identifiers:
  assumes "args ''q'' = Some q" and "q \<noteq> []"
      and "upstream env (search_request q (args_get_int env args ''max_results'' 10)) = Inr response"
      and "response_items response = Inr items"
      and "status (fst (search_shorts env args w)) = 200"
  shows "\<exists>out. body (fst (search_shorts env args w)) = success_envelope (JList out) \<and>
               length out \<le> length items \<and>
               (int (length items) \<le> args_get_int env args ''max_results'' 10
                  \<longrightarrow> int (length out) \<le> args_get_int env args ''max_results'' 10) \<and>
               (\<forall>d \<in> set out. \<exists>v. py_getitem d ''video_id'' = Inr v \<and> v \<noteq> JNull \<and> truthy v)"
proof -
  let ?n = "args_get_int env args ''max_results'' 10"
  from assms(5) obtain r where r: "fst (YouTubeAPI_search_shorts env q ?n w) = Inr r"
    and b: "body (fst (search_shorts env args w)) = success_envelope r"
    by (auto simp: fst_search_shorts [where args = args, OF assms(1,2)] split: sum.splits)
  from r obtain out where out: "r = JList out"
    and all2: "list_all2 summary_of (filter has_video_id items) out"
    by (auto simp: search_result_iff [OF assms(3,4)])
  from all2 have len: "length out = length (filter has_video_id items)"
    by (simp add: list_all2_lengthD)
  then have le: "length out \<le> length items" by simp
  have ids: "\<exists>v. py_getitem d ''video_id'' = Inr v \<and> v \<noteq> JNull \<and> truthy v" if "d \<in> set out" for d
  proof -
    from that obtain j where j: "j < length out" "d = out ! j" by (auto simp: in_set_conv_nth)
    with all2 len have s: "summary_of (filter has_video_id items ! j) d"
      by (simp add: list_all2_conv_all_nth)
    from j len have "j < length (filter has_video_id items)" by simp
    then have "filter has_video_id items ! j \<in> set (filter has_video_id items)" by (rule nth_mem)
    then have "has_video_id (filter has_video_id items ! j)" by simp
    with s show ?thesis by (rule summary_of_video_id)
  qed
  from b out le ids show ?thesis by auto
qed

lemma search_length_and_identifiers_example:
  "[''q'' \<mapsto> ''cats'', ''max_results'' \<mapsto> ''5''] ''q'' = Some ''cats'' \<and> ''cats'' \<noteq> [] \<and>
   upstream (stub_env (Inr (items_response [search_item ''a1'', channel_item, search_item ''a2''])))
       (search_request ''cats''
          (args_get_int (stub_env (Inr (items_response [search_item ''a1'', channel_item, search_item ''a2''])))
             [''q'' \<mapsto> ''cats'', ''max_results'' \<mapsto> ''5''] ''max_results'' 10))
     = Inr (items_response [search_item ''a1'', channel_item, search_item ''a2'']) \<and>
   response_items (items_response [search_item ''a1'', channel_item, search_item ''a2''])
     = Inr [search_item ''a1'', channel_item, search_item ''a2''] \<and>
   fst (search_shorts (stub_env (Inr (items_response [search_item ''a1'', channel_item, search_item ''a2''])))
         [''q'' \<mapsto> ''cats'', ''max_results'' \<mapsto> ''5''] w0)
     = \<lparr>status = 200, body = success_envelope (JList [search_summary ''a1'', search_summary ''a2''])\<rparr> \<and>
   args_get_int (stub_env (Inr (items_response [search_item ''a1'', channel_item, search_item ''a2''])))
       [''q'' \<mapsto> ''cats'', ''max_results'' \<mapsto> ''5''] ''max_results'' 10 = 5 \<and>
   (\<exists>out. body (fst (search_shorts
                 (stub_env (Inr (items_response [search_item ''a1'', channel_item, search_item ''a2''])))
                 [''q'' \<mapsto> ''cats'', ''max_results'' \<mapsto> ''5''] w0)) = success_envelope (JList out) \<and>
          length out \<le> length [search_item ''a1'', channel_item, search_item ''a2''] \<and>
          int (length out) \<le> 5 \<and>
          list_all (\<lambda>d. \<exists>v. py_getitem d ''video_id'' = Inr v \<and> v \<noteq> JNull \<and> truthy v) out)"
proof -
  let ?items = "[search_item ''a1'', channel_item, search_item ''a2'']"
  let ?env = "stub_env (Inr (items_response ?items))"
  let ?args = "[''q'' \<mapsto> ''cats'', ''max_results'' \<mapsto> ''5'']"
  have h1: "?args ''q'' = Some ''cats''" by simp
  have h2: "''cats'' \<noteq> []" by simp
  have h3: "upstream ?env (search_request ''cats'' (args_get_int ?env ?args ''max_results'' 10))
              = Inr (items_response ?items)"
    by (simp add: stub_env_def)
  have h4: "response_items (items_response ?items) = Inr ?items"
    by (simp add: response_items_def items_response_def)
  have r: "fst (search_shorts ?env ?args w0)
             = \<lparr>status = 200, body = success_envelope (JList [search_summary ''a1'', search_summary ''a2''])\<rparr>"
    by (simp add: fst_search_shorts [where args = ?args, OF h1 h2] fst_YouTubeAPI_search_shorts
          h3 h4 search_loop_sample del: search_loop.simps)
  then have h5: "status (fst (search_shorts ?env ?args w0)) = 200" by simp
  have n: "args_get_int ?env ?args ''max_results'' 10 = 5"
    by (simp add: args_get_int_def stub_env_def decimal_def)
  from search_length_and_identifiers [where args = ?args, OF h1 h2 h3 h4 h5]
  obtain out where
    o: "body (fst (search_shorts ?env ?args w0)) = success_envelope (JList out)"
       "length out \<le> length ?items"
       "int (length ?items) \<le> args_get_int ?env ?args ''max_results'' 10
          \<longrightarrow> int (length out) \<le> args_get_int ?env ?args ''max_results'' 10"
       "\<forall>d \<in> set out. \<exists>v. py_getitem d ''video_id'' = Inr v \<and> v \<noteq> JNull \<and> truthy v"
    by blast
  from o(3) n have "int (length out) \<le> 5" by simp
  moreover from o(4) have
    "list_all (\<lambda>d. \<exists>v. py_getitem d ''video_id'' = Inr v \<and> v \<noteq> JNull \<and> truthy v) out"
    by (simp add: list_all_iff)
  ultimately have
    "\<exists>out. body (fst (search_shorts ?env ?args w0)) = success_envelope (JList out) \<and>
           length out \<le> length ?items \<and> int (length out) \<le> 5 \<and>
           list_all (\<lambda>d. \<exists>v. py_getitem d ''video_id'' = Inr v \<and> v \<noteq> JNull \<and> truthy v) out"
    using o(1,2) by blast
  with h1 h2 h3 h4 r n show ?thesis by blast
qed

subsection \<open>C4: an upstream failure becomes HTTP 500 with its text\<close>

text \<open>
  Claim C4. For a request to search (with a non-empty \<^verbatim>\<open>q\<close>), to the detail lookup or
  to trending, if the upstream call raises a failure, the handler answers HTTP 500 with
  the error envelope whose message is the failure's text \<^verbatim>\<open>str(e)\<close> unchanged. The failure
  is not suppressed and the query is not retried: exactly one upstream query has been
  issued.
\<close>

theorem upstream_failure_gives_500:
  "(args ''q'' = Some q \<and> q \<noteq> [] \<and>
    upstream env (search_request q (args_get_int env args ''max_results'' 10)) = Inl e \<longrightarrow>
      fst (search_shorts env args w) = \<lparr>status = 500, body = JObj [(''error'', JStr (str_exn e))]\<rparr> \<and>
      calls (snd (search_shorts env args w)) =
        calls w @ [search_request q (args_get_int env args ''max_results'' 10)]) \<and>
   (upstream env (details_request video_id) = Inl e \<longrightarrow>
      fst (get_short_details env video_id w) = \<lparr>status = 500, body = JObj [(''error'', JStr (str_exn e))]\<rparr> \<and>
      calls (snd (get_short_details env video_id w)) = calls w @ [details_request video_id]) \<and>
   (upstream env (trending_request (case args ''region'' of None \<Rightarrow> ''US'' | Some r \<Rightarrow> r)
                    (args_get_int env args ''max_results'' 10)) = Inl e \<longrightarrow>
      fst (get_trending_shorts env args w) = \<lparr>status = 500, body = JObj [(''error'', JStr (str_exn e))]\<rparr> \<and>
      calls (snd (get_trending_shorts env args w)) =
        calls w @ [trending_request (case args ''region'' of None \<Rightarrow> ''US'' | Some r \<Rightarrow> r)
                     (args_get_int env args ''max_results'' 10)])"
proof (intro conjI impI)
  assume h: "args ''q'' = Some q \<and> q \<noteq> [] \<and>
    upstream env (search_request q (args_get_int env args ''max_results'' 10)) = Inl e"
  then show "fst (search_shorts env args w) = \<lparr>status = 500, body = JObj [(''error'', JStr (str_exn e))]\<rparr>"
    by (simp add: fst_search_shorts fst_YouTubeAPI_search_shorts error_envelope_def)
  from h show "calls (snd (search_shorts env args w)) =
        calls w @ [search_request q (args_get_int env args ''max_results'' 10)]"
    by (simp add: snd_search_shorts calls_YouTubeAPI_search_shorts)
next
  assume h: "upstream env (details_request video_id) = Inl e"
  then show "fst (get_short_details env video_id w) = \<lparr>status = 500, body = JObj [(''error'', JStr (str_exn e))]\<rparr>"
    by (simp add: fst_get_short_details fst_YouTubeAPI_get_video_details error_envelope_def)
  show "calls (snd (get_short_details env video_id w)) = calls w @ [details_request video_id]"
    by (simp add: snd_get_short_details calls_YouTubeAPI_get_video_details)
next
  assume h: "upstream env (trending_request (case args ''region'' of None \<Rightarrow> ''US'' | Some r \<Rightarrow> r)
                    (args_get_int env args ''max_results'' 10)) = Inl e"
  then show "fst (get_trending_shorts env args w) = \<lparr>status = 500, body = JObj [(''error'', JStr (str_exn e))]\<rparr>"
    by (simp add: fst_get_trending_shorts fst_YouTubeAPI_get_trending_shorts error_envelope_def)
  show "calls (snd (get_trending_shorts env args w)) =
        calls w @ [trending_request (case args ''region'' of None \<Rightarrow> ''US'' | Some r \<Rightarrow> r)
                     (args_get_int env args ''max_results'' 10)]"
    by (simp add: snd_get_trending_shorts calls_YouTubeAPI_get_trending_shorts)
qed

theorem upstream_failure_gives_500_witness:
  "([''q'' \<mapsto> ''cats''] ''q'' = Some ''cats'' \<and> ''cats'' \<noteq> [] \<and>
    upstream (stub_env (Inl (Exn HttpError ''quotaExceeded'')))
      (search_request ''cats'' (args_get_int (stub_env (Inl (Exn HttpError ''quotaExceeded''))) [''q'' \<mapsto> ''cats''] ''max_results'' 10))
      = Inl (Exn HttpError ''quotaExceeded'')) \<and>
   upstream (stub_env (Inl (Exn HttpError ''quotaExceeded''))) (details_request ''abc'')
      = Inl (Exn HttpError ''quotaExceeded'') \<and>
   upstream (stub_env (Inl (Exn HttpError ''quotaExceeded'')))
      (trending_request (case [''q'' \<mapsto> ''cats''] ''region'' of None \<Rightarrow> ''US'' | Some r \<Rightarrow> r)
         (args_get_int (stub_env (Inl (Exn HttpError ''quotaExceeded''))) [''q'' \<mapsto> ''cats''] ''max_results'' 10))
      = Inl (Exn HttpError ''quotaExceeded'') \<and>
   fst (search_shorts (stub_env (Inl (Exn HttpError ''quotaExceeded''))) [''q'' \<mapsto> ''cats''] w0)
      = \<lparr>status = 500, body = JObj [(''error'', JStr ''quotaExceeded'')]\<rparr> \<and>
   calls (snd (search_shorts (stub_env (Inl (Exn HttpError ''quotaExceeded''))) [''q'' \<mapsto> ''cats''] w0))
      = [search_request ''cats'' 10] \<and>
   fst (get_short_details (stub_env (Inl (Exn HttpError ''quotaExceeded''))) ''abc'' w0)
      = \<lparr>status = 500, body = JObj [(''error'', JStr ''quotaExceeded'')]\<rparr> \<and>
   calls (snd (get_short_details (stub_env (Inl (Exn HttpError ''quotaExceeded''))) ''abc'' w0))
      = [details_request ''abc''] \<and>
   fst (get_trending_shorts (stub_env (Inl (Exn HttpError ''quotaExceeded''))) [''q'' \<mapsto> ''cats''] w0)
      = \<lparr>status = 500, body = JObj [(''error'', JStr ''quotaExceeded'')]\<rparr> \<and>
   calls (snd (get_trending_shorts (stub_env (Inl (Exn HttpError ''quotaExceeded''))) [''q'' \<mapsto> ''cats''] w0))
      = [trending_request ''US'' 10]"
  using upstream_failure_gives_500
    [of "[''q'' \<mapsto> ''cats'']" "''cats''" "stub_env (Inl (Exn HttpError ''quotaExceeded''))"
        "Exn HttpError ''quotaExceeded''" w0 "''abc''"]
  by (simp add: stub_env_def w0_def args_get_int_def)

subsection \<open>C5: detail lookup, not found or found\<close>

text \<open>
  Claim C5, as amended. For every video identifier, if the upstream single-item lookup
  returns an empty item list, the detail-lookup endpoint answers HTTP 404 (never 200) with
  the body \<^verbatim>\<open>{"error": "Video not found"}\<close>; if it returns a non-empty item list whose
  first item has the \<^verbatim>\<open>contentDetails\<close> and \<^verbatim>\<open>statistics\<close> facets and
  \<^verbatim>\<open>snippet.thumbnails.high.url\<close>, the endpoint answers HTTP 200 with the success
  envelope around the one record normalized from that item.
\<close>

theorem detail_lookup_404_or_200:
  "(upstream env1 (details_request video_id1) = Inr response1 \<and>
    py_getitem response1 ''items'' = Inr (JList []) \<longrightarrow>
      fst (get_short_details env1 video_id1 w1) =
        \<lparr>status = 404, body = JObj [(''error'', JStr ''Video not found'')]\<rparr>) \<and>
   (upstream env2 (details_request video_id2) = Inr response2 \<and>
    py_getitem response2 ''items'' = Inr (JList (item # rest)) \<and>
    has_facet item ''contentDetails'' \<and> has_thumbnail item ''high'' \<and> has_facet item ''statistics'' \<longrightarrow>
      (\<exists>d. video_details video_id2 item = Inr d \<and>
           fst (get_short_details env2 video_id2 w2) =
             \<lparr>status = 200, body = JObj [(''success'', JBool True), (''data'', d)]\<rparr>))"
proof (intro conjI impI)
  assume a: "upstream env1 (details_request video_id1) = Inr response1 \<and>
    py_getitem response1 ''items'' = Inr (JList [])"
  then obtain kvs where "response1 = JObj kvs" "map_of kvs ''items'' = Some (JList [])"
    by (auto dest: py_getitem_Inr_obj)
  with a show "fst (get_short_details env1 video_id1 w1) =
        \<lparr>status = 404, body = JObj [(''error'', JStr ''Video not found'')]\<rparr>"
    by (simp add: fst_get_short_details fst_YouTubeAPI_get_video_details error_envelope_def)
next
  assume a: "upstream env2 (details_request video_id2) = Inr response2 \<and>
    py_getitem response2 ''items'' = Inr (JList (item # rest)) \<and>
    has_facet item ''contentDetails'' \<and> has_thumbnail item ''high'' \<and> has_facet item ''statistics''"
  then obtain kvs where r: "response2 = JObj kvs" "map_of kvs ''items'' = Some (JList (item # rest))"
    by (auto dest: py_getitem_Inr_obj)
  from a obtain cd st url where
    f: "py_getitem item ''contentDetails'' = Inr (JObj cd)"
       "py_getitem item ''statistics'' = Inr (JObj st)"
       "thumbnail_url item ''high'' = Inr url"
    by (auto simp: has_facet_iff has_thumbnail_iff)
  from thumbnail_url_snippet [OF f(3)] obtain sn where sn: "py_getitem item ''snippet'' = Inr (JObj sn)"
    by blast
  from video_details_closed [OF f(1) sn f(3) f(2), of video_id2]
  obtain d where d: "video_details video_id2 item = Inr d" and t: "truthy d"
    by simp
  from a r d t have "fst (get_short_details env2 video_id2 w2) =
             \<lparr>status = 200, body = JObj [(''success'', JBool True), (''data'', d)]\<rparr>"
    by (simp add: fst_get_short_details fst_YouTubeAPI_get_video_details success_envelope_def)
  with d show "\<exists>d. video_details video_id2 item = Inr d \<and>
           fst (get_short_details env2 video_id2 w2) =
             \<lparr>status = 200, body = JObj [(''success'', JBool True), (''data'', d)]\<rparr>"
    by blast
qed

theorem detail_lookup_404_or_200_witness:
  "(upstream (stub_env (Inr (items_response []))) (details_request ''unknownid'') = Inr (items_response []) \<and>
    py_getitem (items_response []) ''items'' = Inr (JList [])) \<and>
   (upstream (stub_env (Inr (items_response [video_item ''b'' []]))) (details_request ''b'')
      = Inr (items_response [video_item ''b'' []]) \<and>
    py_getitem (items_response [video_item ''b'' []]) ''items'' = Inr (JList (video_item ''b'' [] # [])) \<and>
    has_facet (video_item ''b'' []) ''contentDetails'' \<and> has_thumbnail (video_item ''b'' []) ''high'' \<and>
    has_facet (video_item ''b'' []) ''statistics'') \<and>
   fst (get_short_details (stub_env (Inr (items_response []))) ''unknownid'' w0)
     = \<lparr>status = 404, body = JObj [(''error'', JStr ''Video not found'')]\<rparr> \<and>
   fst (get_short_details (stub_env (Inr (items_response [video_item ''b'' []]))) ''b'' w0)
     = \<lparr>status = 200,
        body = JObj [(''success'', JBool True),
                     (''data'', video_detail ''b'' ''b'' (JInt 0) (JInt 0) (JInt 0))]\<rparr>"
proof -
  have h1: "upstream (stub_env (Inr (items_response []))) (details_request ''unknownid'') = Inr (items_response []) \<and>
    py_getitem (items_response []) ''items'' = Inr (JList [])"
    by (simp add: stub_env_def items_response_def)
  have h2: "upstream (stub_env (Inr (items_response [video_item ''b'' []]))) (details_request ''b'')
      = Inr (items_response [video_item ''b'' []]) \<and>
    py_getitem (items_response [video_item ''b'' []]) ''items'' = Inr (JList (video_item ''b'' [] # [])) \<and>
    has_facet (video_item ''b'' []) ''contentDetails'' \<and> has_thumbnail (video_item ''b'' []) ''high'' \<and>
    has_facet (video_item ''b'' []) ''statistics''"
    by (simp add: stub_env_def items_response_def has_facet_def has_thumbnail_def
          video_item_def thumbnail_url_def thumbnails_of_def)
  note t = detail_lookup_404_or_200
    [of "stub_env (Inr (items_response []))" "''unknownid''" "items_response []" w0
        "stub_env (Inr (items_response [video_item ''b'' []]))" "''b''"
        "items_response [video_item ''b'' []]" "video_item ''b'' []" "[]" w0]
  from t h1 have c1: "fst (get_short_details (stub_env (Inr (items_response []))) ''unknownid'' w0)
     = \<lparr>status = 404, body = JObj [(''error'', JStr ''Video not found'')]\<rparr>"
    by blast
  from t h2 have c2: "fst (get_short_details (stub_env (Inr (items_response [video_item ''b'' []]))) ''b'' w0)
     = \<lparr>status = 200,
        body = JObj [(''success'', JBool True),
                     (''data'', video_detail ''b'' ''b'' (JInt 0) (JInt 0) (JInt 0))]\<rparr>"
    by (auto simp: video_details_video_item field_or_def)
  from h1 h2 c1 c2 show ?thesis by blast
qed

text \<open>
  A non-empty item list alone does not give 200: when the first item lacks a facet that
  the normalizer subscripts, here \<^verbatim>\<open>contentDetails\<close>, the endpoint answers HTTP 500.
\<close>

theorem detail_lookup_nonempty_500_counterexample:
  "upstream (stub_env (Inr (items_response
       [JObj [(''id'', JStr ''b''),
              (''snippet'', JObj [(''title'', JStr ''Short b''), (''thumbnails'', thumbnails_of ''b'')]),
              (''statistics'', JObj [(''viewCount'', JStr ''5'')])]])))
     (details_request ''b'')
     = Inr (items_response
       [JObj [(''id'', JStr ''b''),
              (''snippet'', JObj [(''title'', JStr ''Short b''), (''thumbnails'', thumbnails_of ''b'')]),
              (''statistics'', JObj [(''viewCount'', JStr ''5'')])]]) \<and>
   fst (get_short_details
          (stub_env (Inr (items_response
             [JObj [(''id'', JStr ''b''),
                    (''snippet'', JObj [(''title'', JStr ''Short b''), (''thumbnails'', thumbnails_of ''b'')]),
                    (''statistics'', JObj [(''viewCount'', JStr ''5'')])]])))
          ''b'' w0)
     = \<lparr>status = 500, body = JObj [(''error'', JStr (py_repr_key ''contentDetails''))]\<rparr>"
proof -
  have a: "upstream (stub_env (Inr r)) c = Inr r" for r c
    by (simp add: stub_env_def)
  have b: "fst (get_short_details
          (stub_env (Inr (items_response
             [JObj [(''id'', JStr ''b''),
                    (''snippet'', JObj [(''title'', JStr ''Short b''), (''thumbnails'', thumbnails_of ''b'')]),
                    (''statistics'', JObj [(''viewCount'', JStr ''5'')])]])))
          ''b'' w0)
     = \<lparr>status = 500, body = JObj [(''error'', JStr (py_repr_key ''contentDetails''))]\<rparr>"
    by (simp add: fst_get_short_details details_of_single_item video_details_def error_envelope_def)
  from a b show ?thesis by blast
qed

subsection \<open>C6: search without a query is rejected before any upstream call\<close>

text \<open>
  Claim C6. For every request to the search endpoint whose parameter \<^verbatim>\<open>q\<close> is absent or
  empty, whatever the other parameters, the response is HTTP 400 with the error envelope
  whose message is exactly \<^verbatim>\<open>Query parameter 'q' is required\<close>, and the effects are
  untouched: no upstream call is made.
\<close>

theorem search_without_q_gives_400:
  assumes "args ''q'' = None \<or> args ''q'' = Some []"
  shows "search_shorts env args w =
           (\<lparr>status = 400, body = JObj [(''error'', JStr ''Query parameter 'q' is required'')]\<rparr>, w)"
  using assms by (auto simp: search_shorts_def error_envelope_def)

theorem search_without_q_gives_400_witness:
  "([''q'' \<mapsto> [], ''max_results'' \<mapsto> ''5''] ''q'' = None \<or>
    [''q'' \<mapsto> [], ''max_results'' \<mapsto> ''5''] ''q'' = Some []) \<and>
   search_shorts (stub_env (Inr (items_response [search_item ''a1'']))) [''q'' \<mapsto> [], ''max_results'' \<mapsto> ''5''] w0
     = (\<lparr>status = 400, body = JObj [(''error'', JStr ''Query parameter 'q' is required'')]\<rparr>, w0) \<and>
   calls (snd (search_shorts (stub_env (Inr (items_response [search_item ''a1'']))) [''q'' \<mapsto> [], ''max_results'' \<mapsto> ''5''] w0)) = []"
proof -
  have h: "[''q'' \<mapsto> [], ''max_results'' \<mapsto> ''5''] ''q'' = None \<or>
           [''q'' \<mapsto> [], ''max_results'' \<mapsto> ''5''] ''q'' = Some []"
    by simp
  from search_without_q_gives_400
         [where args = "[''q'' \<mapsto> [], ''max_results'' \<mapsto> ''5'']"
            and env = "stub_env (Inr (items_response [search_item ''a1'']))" and w = w0, OF h] h
  show ?thesis by (simp add: w0_def)
qed

subsection \<open>C7: search keeps the items with a video identifier, in order\<close>

text \<open>
  Claim C7, as amended. For every upstream search response in which every item has an
  \<^verbatim>\<open>id\<close> object and every item with a resolvable video identifier has
  \<^verbatim>\<open>snippet.thumbnails.default.url\<close>, \<^verbatim>\<open>search_shorts\<close> returns exactly the upstream
  items that have a resolvable video identifier, each normalized to its summary, in the
  relative order of the upstream response; the items whose \<^verbatim>\<open>id\<close> object has no (or a
  null or empty) \<^verbatim>\<open>videoId\<close> are skipped without an error.
\<close>

theorem search_returns_resolvable_items_in_order:
  assumes "upstream env (search_request query max_results) = Inr response"
      and "response_items response = Inr items"
      and "\<forall>item \<in> set items.
             has_facet item ''id'' \<and> (has_video_id item \<longrightarrow> has_thumbnail item ''default'')"
  shows "\<exists>out. fst (YouTubeAPI_search_shorts env query max_results w) = Inr (JList out) \<and>
               list_all2 summary_of (filter has_video_id items) out"
proof -
  have ids: "\<forall>item \<in> set items. \<exists>video_id. item_video_id item = Inr video_id"
  proof
    fix item assume "item \<in> set items"
    with assms(3) have "has_facet item ''id''" by blast
    then obtain i where "py_getitem item ''id'' = Inr (JObj i)" by (auto simp: has_facet_iff)
    from item_video_id_obj [OF this] show "\<exists>video_id. item_video_id item = Inr video_id" by blast
  qed
  have "\<forall>item \<in> set (filter has_video_id items). \<exists>d. summary_of item d"
    using assms(3) by (auto intro: summary_of_exists)
  from list_all2_exists [OF this]
  obtain out where out: "list_all2 summary_of (filter has_video_id items) out" by blast
  with ids have "fst (YouTubeAPI_search_shorts env query max_results w) = Inr (JList out)"
    by (simp add: search_result_iff [OF assms(1,2)])
  with out show ?thesis by blast
qed

theorem search_returns_resolvable_items_in_order_witness:
  "upstream (stub_env (Inr (items_response [search_item ''a1'', channel_item, search_item ''a2''])))
       (search_request ''cats'' 10)
     = Inr (items_response [search_item ''a1'', channel_item, search_item ''a2'']) \<and>
   response_items (items_response [search_item ''a1'', channel_item, search_item ''a2''])
     = Inr [search_item ''a1'', channel_item, search_item ''a2''] \<and>
   (has_facet (search_item ''a1'') ''id'' \<and> has_thumbnail (search_item ''a1'') ''default'' \<and>
    has_facet channel_item ''id'' \<and> item_video_id channel_item = Inr JNull \<and>
    has_facet (search_item ''a2'') ''id'' \<and> has_thumbnail (search_item ''a2'') ''default'') \<and>
   filter has_video_id [search_item ''a1'', channel_item, search_item ''a2'']
     = [search_item ''a1'', search_item ''a2''] \<and>
   (\<exists>out. fst (YouTubeAPI_search_shorts
                 (stub_env (Inr (items_response [search_item ''a1'', channel_item, search_item ''a2''])))
                 ''cats'' 10 w0) = Inr (JList out) \<and>
          list_all2 summary_of (filter has_video_id [search_item ''a1'', channel_item, search_item ''a2'']) out) \<and>
   fst (YouTubeAPI_search_shorts
          (stub_env (Inr (items_response [search_item ''a1'', channel_item, search_item ''a2''])))
          ''cats'' 10 w0)
     = Inr (JList [search_summary ''a1'', search_summary ''a2''])"
proof -
  let ?items = "[search_item ''a1'', channel_item, search_item ''a2'']"
  let ?env = "stub_env (Inr (items_response ?items))"
  have h1: "upstream ?env (search_request ''cats'' 10) = Inr (items_response ?items)"
    by (simp add: stub_env_def)
  have h2: "response_items (items_response ?items) = Inr ?items"
    by (simp add: response_items_def items_response_def)
  have h3: "\<forall>item \<in> set ?items.
              has_facet item ''id'' \<and> (has_video_id item \<longrightarrow> has_thumbnail item ''default'')"
    by (simp add: has_facet_def has_video_id_def has_thumbnail_def item_video_id_def
          thumbnail_url_def search_item_def channel_item_def thumbnails_of_def)
  have h4: "filter has_video_id ?items = [search_item ''a1'', search_item ''a2'']"
    by (simp add: has_video_id_def item_video_id_search_item item_video_id_channel_item)
  have h5: "fst (YouTubeAPI_search_shorts ?env ''cats'' 10 w0)
              = Inr (JList [search_summary ''a1'', search_summary ''a2''])"
    by (simp add: fst_YouTubeAPI_search_shorts h1 h2 search_loop_sample del: search_loop.simps)
  have h6: "has_facet (search_item ''a1'') ''id'' \<and> has_thumbnail (search_item ''a1'') ''default'' \<and>
            has_facet channel_item ''id'' \<and> item_video_id channel_item = Inr JNull \<and>
            has_facet (search_item ''a2'') ''id'' \<and> has_thumbnail (search_item ''a2'') ''default''"
    by (simp add: has_facet_def has_thumbnail_def item_video_id_def
          thumbnail_url_def search_item_def channel_item_def thumbnails_of_def)
  from search_returns_resolvable_items_in_order [OF h1 h2 h3, of w0] h1 h2 h4 h5 h6
  show ?thesis by blast
qed

text \<open>
  The claim as first stated, for every upstream response, fails: an item that has a video
  identifier but no thumbnails is not returned, and an item with no \<^verbatim>\<open>id\<close> at all is not
  skipped; either makes the whole call raise \<^verbatim>\<open>KeyError\<close>.
\<close>

theorem search_item_without_facet_counterexample:
  "fst (YouTubeAPI_search_shorts
          (stub_env (Inr (items_response
             [JObj [(''id'', JObj [(''kind'', JStr ''youtube#video''), (''videoId'', JStr ''a1'')]),
                    (''snippet'', JObj [(''title'', JStr ''Short a1'')])]])))
          ''cats'' 10 w0)
     = Inl (Exn KeyError (py_repr_key ''thumbnails'')) \<and>
   fst (YouTubeAPI_search_shorts
          (stub_env (Inr (items_response
             [search_item ''a1'', JObj [(''kind'', JStr ''youtube#searchResult'')]])))
          ''cats'' 10 w0)
     = Inl (Exn KeyError (py_repr_key ''id''))"
  by (simp add: fst_YouTubeAPI_search_shorts stub_env_def items_response_def response_items_def
        search_item_def thumbnails_of_def
        item_video_id_def short_data_def snippet_get_def thumbnail_url_def)

subsection \<open>C8: the trending listing keeps the upstream order\<close>

text \<open>
  Claim C8. For every upstream trending-chart response, \<^verbatim>\<open>get_trending_shorts\<close> returns
  the normalized entries in exactly the order in which the upstream response lists them,
  with no sorting of its own: a list is returned exactly when it is, position by
  position, the normalization of the upstream items; it then has as many entries as the
  upstream response has items, and the entry at each position carries the identifier of
  the upstream item at that position.
\<close>

theorem trending_preserves_upstream_order:
  assumes "upstream env (trending_request region_code max_results) = Inr response"
      and "response_items response = Inr items"
  shows "(fst (YouTubeAPI_get_trending_shorts env region_code max_results w) = Inr (JList out)
            \<longleftrightarrow> list_all2 (\<lambda>item d. trending_data item = Inr d) items out) \<and>
         (fst (YouTubeAPI_get_trending_shorts env region_code max_results w) = Inr (JList out)
            \<longrightarrow> length out = length items \<and>
                (\<forall>i < length items. py_getitem (out ! i) ''video_id'' = py_getitem (items ! i) ''id''))"
proof -
  have iff: "fst (YouTubeAPI_get_trending_shorts env region_code max_results w) = Inr (JList out)
               \<longleftrightarrow> list_all2 (\<lambda>item d. trending_data item = Inr d) items out"
    using assms
    by (simp add: fst_YouTubeAPI_get_trending_shorts bind_exn_eq_Inr trending_loop_iff)
  have "length out = length items \<and>
        (\<forall>i < length items. py_getitem (out ! i) ''video_id'' = py_getitem (items ! i) ''id'')"
    if "list_all2 (\<lambda>item d. trending_data item = Inr d) items out"
    using that by (auto simp: list_all2_conv_all_nth dest: trending_data_video_id)
  with iff show ?thesis by blast
qed

theorem trending_preserves_upstream_order_witness:
  "upstream (stub_env (Inr (items_response
       [video_item ''b'' [(''viewCount'', JStr ''5'')], video_item ''a'' [(''viewCount'', JStr ''900'')]])))
     (trending_request ''US'' 10)
   = Inr (items_response
       [video_item ''b'' [(''viewCount'', JStr ''5'')], video_item ''a'' [(''viewCount'', JStr ''900'')]]) \<and>
   response_items (items_response
       [video_item ''b'' [(''viewCount'', JStr ''5'')], video_item ''a'' [(''viewCount'', JStr ''900'')]])
   = Inr [video_item ''b'' [(''viewCount'', JStr ''5'')], video_item ''a'' [(''viewCount'', JStr ''900'')]] \<and>
   fst (YouTubeAPI_get_trending_shorts
          (stub_env (Inr (items_response
             [video_item ''b'' [(''viewCount'', JStr ''5'')], video_item ''a'' [(''viewCount'', JStr ''900'')]])))
          ''US'' 10 w0)
   = Inr (JList
       [JObj [(''video_id'', JStr ''b''), (''title'', JStr ''Short b''), (''description'', JNull),
              (''thumbnail'', JStr ''https://i.ytimg.com/vi/b/default.jpg''),
              (''channel_title'', JNull), (''published_at'', JNull), (''view_count'', JStr ''5'')],
        JObj [(''video_id'', JStr ''a''), (''title'', JStr ''Short a''), (''description'', JNull),
              (''thumbnail'', JStr ''https://i.ytimg.com/vi/a/default.jpg''),
              (''channel_title'', JNull), (''published_at'', JNull), (''view_count'', JStr ''900'')]])"
proof -
  let ?items = "[video_item ''b'' [(''viewCount'', JStr ''5'')], video_item ''a'' [(''viewCount'', JStr ''900'')]]"
  let ?out = "[JObj [(''video_id'', JStr ''b''), (''title'', JStr ''Short b''), (''description'', JNull),
              (''thumbnail'', JStr ''https://i.ytimg.com/vi/b/default.jpg''),
              (''channel_title'', JNull), (''published_at'', JNull), (''view_count'', JStr ''5'')],
        JObj [(''video_id'', JStr ''a''), (''title'', JStr ''Short a''), (''description'', JNull),
              (''thumbnail'', JStr ''https://i.ytimg.com/vi/a/default.jpg''),
              (''channel_title'', JNull), (''published_at'', JNull), (''view_count'', JStr ''900'')]]"
  have h1: "upstream (stub_env (Inr (items_response ?items))) (trending_request ''US'' 10)
              = Inr (items_response ?items)"
    by (simp add: stub_env_def)
  have h2: "response_items (items_response ?items) = Inr ?items"
    by (simp add: response_items_def items_response_def)
  have h3: "list_all2 (\<lambda>item d. trending_data item = Inr d) ?items ?out"
    by (simp add: sample_defs normalizer_defs)
  from trending_preserves_upstream_order [OF h1 h2, of w0 ?out] h3
  have "fst (YouTubeAPI_get_trending_shorts (stub_env (Inr (items_response ?items))) ''US'' 10 w0)
          = Inr (JList ?out)"
    by blast
  with h1 h2 show ?thesis by blast
qed

subsection \<open>C9: the detail record echoes the requested identifier\<close>

text \<open>
  Claim C9. Whenever \<^verbatim>\<open>get_video_details\<close> returns a record (and not \<^verbatim>\<open>None\<close>), the
  record's \<^verbatim>\<open>video_id\<close> is the identifier the caller passed in, whatever identifier the
  upstream item carries.
\<close>

theorem details_video_id_is_argument:
  assumes "fst (YouTubeAPI_get_video_details env video_id w) = Inr d"
      and "d \<noteq> JNull"
  shows "py_getitem d ''video_id'' = Inr (JStr video_id)"
  using assms
  by (auto simp: fst_YouTubeAPI_get_video_details bind_exn_eq_Inr
           split: if_splits dest: video_details_video_id)

theorem details_video_id_is_argument_witness:
  "fst (YouTubeAPI_get_video_details
          (stub_env (Inr (items_response [video_item ''zzz'' []]))) ''abc'' w0)
     = Inr (JObj
         [(''video_id'', JStr ''abc''), (''title'', JStr ''Short zzz''), (''description'', JNull),
          (''channel_id'', JNull), (''channel_title'', JNull), (''published_at'', JNull),
          (''thumbnail'', JStr ''https://i.ytimg.com/vi/zzz/hqdefault.jpg''),
          (''duration'', JStr ''PT30S''), (''view_count'', JInt 0), (''like_count'', JInt 0),
          (''comment_count'', JInt 0), (''tags'', JList []), (''category_id'', JNull)]) \<and>
   py_getitem (JObj
         [(''video_id'', JStr ''abc''), (''title'', JStr ''Short zzz''), (''description'', JNull),
          (''channel_id'', JNull), (''channel_title'', JNull), (''published_at'', JNull),
          (''thumbnail'', JStr ''https://i.ytimg.com/vi/zzz/hqdefault.jpg''),
          (''duration'', JStr ''PT30S''), (''view_count'', JInt 0), (''like_count'', JInt 0),
          (''comment_count'', JInt 0), (''tags'', JList []), (''category_id'', JNull)]) ''video_id''
     = Inr (JStr ''abc'')"
proof -
  let ?d = "JObj
         [(''video_id'', JStr ''abc''), (''title'', JStr ''Short zzz''), (''description'', JNull),
          (''channel_id'', JNull), (''channel_title'', JNull), (''published_at'', JNull),
          (''thumbnail'', JStr ''https://i.ytimg.com/vi/zzz/hqdefault.jpg''),
          (''duration'', JStr ''PT30S''), (''view_count'', JInt 0), (''like_count'', JInt 0),
          (''comment_count'', JInt 0), (''tags'', JList []), (''category_id'', JNull)]"
  have h1: "fst (YouTubeAPI_get_video_details
                   (stub_env (Inr (items_response [video_item ''zzz'' []]))) ''abc'' w0) = Inr ?d"
    by (simp add: fst_YouTubeAPI_get_video_details sample_defs normalizer_defs)
  have h2: "?d \<noteq> JNull" by simp
  from details_video_id_is_argument [OF h1 h2] h1 show ?thesis by blast
qed

subsection \<open>C10: an unparseable max_results counts as omitted\<close>

text \<open>
  Claim C10. For every request to the search or the trending endpoint whose
  \<^verbatim>\<open>max_results\<close> is present but is not parseable as an integer, the request does not
  fail on that account: the value read is the default 10, and processing continues with
  it. The search handler (for a non-empty \<^verbatim>\<open>q\<close>) and the trending handler issue their
  one upstream query with \<^verbatim>\<open>maxResults\<close> 10 and answer with the outcome of the client
  method called with 10, and the whole result, response and effects, is that of the same
  request without \<^verbatim>\<open>max_results\<close>.
\<close>

theorem unparseable_max_results_is_default:
  assumes "py_int env s = None"
  shows "args_get_int env (args(''max_results'' \<mapsto> s)) ''max_results'' 10 = 10 \<and>
         search_shorts env (args(''max_results'' \<mapsto> s)) w =
           search_shorts env (args(''max_results'' := None)) w \<and>
         get_trending_shorts env (args(''max_results'' \<mapsto> s)) w =
           get_trending_shorts env (args(''max_results'' := None)) w \<and>
         (args ''q'' = Some q \<and> q \<noteq> [] \<longrightarrow>
            search_shorts env (args(''max_results'' \<mapsto> s)) w =
              (case YouTubeAPI_search_shorts env q 10 w of
                 (Inr results, w') \<Rightarrow> (\<lparr>status = 200, body = success_envelope results\<rparr>, w')
               | (Inl e, w') \<Rightarrow> (\<lparr>status = 500, body = error_envelope (str_exn e)\<rparr>, w')) \<and>
            calls (snd (search_shorts env (args(''max_results'' \<mapsto> s)) w)) =
              calls w @ [search_request q 10]) \<and>
         get_trending_shorts env (args(''max_results'' \<mapsto> s)) w =
           (case YouTubeAPI_get_trending_shorts env
                   (case args ''region'' of None \<Rightarrow> ''US'' | Some r \<Rightarrow> r) 10 w of
              (Inr results, w') \<Rightarrow> (\<lparr>status = 200, body = success_envelope results\<rparr>, w')
            | (Inl e, w') \<Rightarrow> (\<lparr>status = 500, body = error_envelope (str_exn e)\<rparr>, w')) \<and>
         calls (snd (get_trending_shorts env (args(''max_results'' \<mapsto> s)) w)) =
           calls w @ [trending_request (case args ''region'' of None \<Rightarrow> ''US'' | Some r \<Rightarrow> r) 10]"
proof -
  let ?args = "args(''max_results'' \<mapsto> s)"
  have n: "args_get_int env ?args ''max_results'' 10 = 10"
    using assms by (rule args_get_int_unparseable)
  have s_eq: "search_shorts env ?args w = search_shorts env (args(''max_results'' := None)) w"
    using assms
    by (simp add: search_shorts_def args_get_int_unparseable args_get_int_absent)
  have t_eq: "get_trending_shorts env ?args w = get_trending_shorts env (args(''max_results'' := None)) w"
    using assms
    by (simp add: get_trending_shorts_def args_get_int_unparseable args_get_int_absent)
  have s_run: "search_shorts env ?args w =
              (case YouTubeAPI_search_shorts env q 10 w of
                 (Inr results, w') \<Rightarrow> (\<lparr>status = 200, body = success_envelope results\<rparr>, w')
               | (Inl e, w') \<Rightarrow> (\<lparr>status = 500, body = error_envelope (str_exn e)\<rparr>, w'))"
    and s_calls: "calls (snd (search_shorts env ?args w)) = calls w @ [search_request q 10]"
    if q: "args ''q'' = Some q \<and> q \<noteq> []"
  proof -
    from q have a: "?args ''q'' = Some q" and b: "q \<noteq> []" by simp_all
    from a b n show "search_shorts env ?args w =
              (case YouTubeAPI_search_shorts env q 10 w of
                 (Inr results, w') \<Rightarrow> (\<lparr>status = 200, body = success_envelope results\<rparr>, w')
               | (Inl e, w') \<Rightarrow> (\<lparr>status = 500, body = error_envelope (str_exn e)\<rparr>, w'))"
      by (simp add: search_shorts_def)
    from n show "calls (snd (search_shorts env ?args w)) = calls w @ [search_request q 10]"
      by (simp add: snd_search_shorts [where args = ?args, OF a b] calls_YouTubeAPI_search_shorts)
  qed
  have t_run: "get_trending_shorts env ?args w =
           (case YouTubeAPI_get_trending_shorts env
                   (case args ''region'' of None \<Rightarrow> ''US'' | Some r \<Rightarrow> r) 10 w of
              (Inr results, w') \<Rightarrow> (\<lparr>status = 200, body = success_envelope results\<rparr>, w')
            | (Inl e, w') \<Rightarrow> (\<lparr>status = 500, body = error_envelope (str_exn e)\<rparr>, w'))"
    using n by (simp add: get_trending_shorts_def)
  have t_calls: "calls (snd (get_trending_shorts env ?args w)) =
           calls w @ [trending_request (case args ''region'' of None \<Rightarrow> ''US'' | Some r \<Rightarrow> r) 10]"
    using n by (simp add: snd_get_trending_shorts calls_YouTubeAPI_get_trending_shorts)
  from n s_eq t_eq s_run s_calls t_run t_calls show ?thesis by blast
qed

theorem unparseable_max_results_is_default_witness:
  "py_int (resource_env (Inr (items_response [search_item ''a1'']))
                        (Inr (items_response [video_item ''b'' []]))) ''ten'' = None \<and>
   ([''q'' \<mapsto> ''cats''] ''q'' = Some ''cats'' \<and> ''cats'' \<noteq> []) \<and>
   search_shorts (resource_env (Inr (items_response [search_item ''a1'']))
                               (Inr (items_response [video_item ''b'' []])))
       ([''q'' \<mapsto> ''cats''](''max_results'' \<mapsto> ''ten'')) w0
     = (\<lparr>status = 200, body = success_envelope (JList [search_summary ''a1''])\<rparr>,
        \<lparr>calls = [search_request ''cats'' 10], stdout = []\<rparr>) \<and>
   get_trending_shorts (resource_env (Inr (items_response [search_item ''a1'']))
                                     (Inr (items_response [video_item ''b'' []])))
       ([''q'' \<mapsto> ''cats''](''max_results'' \<mapsto> ''ten'')) w0
     = (\<lparr>status = 200, body = success_envelope (JList [trending_entry ''b'' (JInt 0)])\<rparr>,
        \<lparr>calls = [trending_request ''US'' 10], stdout = []\<rparr>) \<and>
   search_shorts (resource_env (Inr (items_response [search_item ''a1'']))
                               (Inr (items_response [video_item ''b'' []])))
       ([''q'' \<mapsto> ''cats''](''max_results'' := None)) w0
     = (\<lparr>status = 200, body = success_envelope (JList [search_summary ''a1''])\<rparr>,
        \<lparr>calls = [search_request ''cats'' 10], stdout = []\<rparr>) \<and>
   get_trending_shorts (resource_env (Inr (items_response [search_item ''a1'']))
                                     (Inr (items_response [video_item ''b'' []])))
       ([''q'' \<mapsto> ''cats''](''max_results'' := None)) w0
     = (\<lparr>status = 200, body = success_envelope (JList [trending_entry ''b'' (JInt 0)])\<rparr>,
        \<lparr>calls = [trending_request ''US'' 10], stdout = []\<rparr>)"
proof -
  let ?env = "resource_env (Inr (items_response [search_item ''a1'']))
                           (Inr (items_response [video_item ''b'' []]))"
  let ?args = "[''q'' \<mapsto> ''cats'']"
  have h: "py_int ?env ''ten'' = None"
    by (simp add: resource_env_def decimal_def)
  have hq: "?args ''q'' = Some ''cats'' \<and> ''cats'' \<noteq> []" by simp
  have ys: "YouTubeAPI_search_shorts ?env ''cats'' 10 w0
              = (Inr (JList [search_summary ''a1'']), \<lparr>calls = [search_request ''cats'' 10], stdout = []\<rparr>)"
    by (simp add: YouTubeAPI_search_shorts_def execute_def upstream_resource_env_search
          except_HttpError_def response_items_def items_response_def w0_def
          item_video_id_search_item short_data_search_item)
  have yt: "YouTubeAPI_get_trending_shorts ?env ''US'' 10 w0
              = (Inr (JList [trending_entry ''b'' (JInt 0)]), \<lparr>calls = [trending_request ''US'' 10], stdout = []\<rparr>)"
    by (simp add: YouTubeAPI_get_trending_shorts_def execute_def upstream_resource_env_videos
          except_HttpError_def response_items_def items_response_def w0_def
          trending_data_video_item field_or_def)
  note t = unparseable_max_results_is_default [OF h, of ?args w0 "''cats''"]
  from t hq have rs: "search_shorts ?env (?args(''max_results'' \<mapsto> ''ten'')) w0 =
      (case YouTubeAPI_search_shorts ?env ''cats'' 10 w0 of
         (Inr results, w') \<Rightarrow> (\<lparr>status = 200, body = success_envelope results\<rparr>, w')
       | (Inl e, w') \<Rightarrow> (\<lparr>status = 500, body = error_envelope (str_exn e)\<rparr>, w'))"
    by blast
  have s1: "search_shorts ?env (?args(''max_results'' \<mapsto> ''ten'')) w0
     = (\<lparr>status = 200, body = success_envelope (JList [search_summary ''a1''])\<rparr>,
        \<lparr>calls = [search_request ''cats'' 10], stdout = []\<rparr>)"
    unfolding rs ys by simp
  have rg: "(case ?args ''region'' of None \<Rightarrow> ''US'' | Some r \<Rightarrow> r) = ''US''"
    by simp
  from t have rt: "get_trending_shorts ?env (?args(''max_results'' \<mapsto> ''ten'')) w0 =
      (case YouTubeAPI_get_trending_shorts ?env
              (case ?args ''region'' of None \<Rightarrow> ''US'' | Some r \<Rightarrow> r) 10 w0 of
         (Inr results, w') \<Rightarrow> (\<lparr>status = 200, body = success_envelope results\<rparr>, w')
       | (Inl e, w') \<Rightarrow> (\<lparr>status = 500, body = error_envelope (str_exn e)\<rparr>, w'))"
    by blast
  have t1: "get_trending_shorts ?env (?args(''max_results'' \<mapsto> ''ten'')) w0
     = (\<lparr>status = 200, body = success_envelope (JList [trending_entry ''b'' (JInt 0)])\<rparr>,
        \<lparr>calls = [trending_request ''US'' 10], stdout = []\<rparr>)"
    unfolding rt rg yt by simp
  from t have es: "search_shorts ?env (?args(''max_results'' \<mapsto> ''ten'')) w0
                     = search_shorts ?env (?args(''max_results'' := None)) w0"
    and et: "get_trending_shorts ?env (?args(''max_results'' \<mapsto> ''ten'')) w0
                     = get_trending_shorts ?env (?args(''max_results'' := None)) w0"
    by blast+
  have s2: "search_shorts ?env (?args(''max_results'' := None)) w0
     = (\<lparr>status = 200, body = success_envelope (JList [search_summary ''a1''])\<rparr>,
        \<lparr>calls = [search_request ''cats'' 10], stdout = []\<rparr>)"
    by (rule trans [OF es [symmetric] s1])
  have t2: "get_trending_shorts ?env (?args(''max_results'' := None)) w0
     = (\<lparr>status = 200, body = success_envelope (JList [trending_entry ''b'' (JInt 0)])\<rparr>,
        \<lparr>calls = [trending_request ''US'' 10], stdout = []\<rparr>)"
    by (rule trans [OF et [symmetric] t1])
  from h hq s1 t1 s2 t2 show ?thesis by blast
qed

end
